theory Spec2Isabelle
  imports Complex_Main
begin

section \<open>Data model\<close>

text \<open>
  A colour is the object \<open>{R, G, B}\<close> that \<open>getPixel\<close> and \<open>parseColorString\<close>
  produce. A raster read from disk is known to \<open>index.js\<close> only through \<open>width\<close>,
  \<open>height\<close> and \<open>getPixel\<close>.
\<close>

record color =
  R :: nat
  G :: nat
  B :: nat

record png =
  width :: nat
  height :: nat
  getPixel :: "nat \<Rightarrow> nat \<Rightarrow> color"

text \<open>
  Modelled from the spec: the raster collaborator \<open>lib/png\<close> (\<open>png.empty\<close>,
  \<open>setPixel\<close>) is not part of \<open>index.js\<close>. The raster under construction is
  the table of the arguments of the last \<open>setPixel(x, y, color, alpha)\<close> call made for each
  coordinate; the optional alpha is \<open>None\<close> when the call passes three arguments. Every call
  is recorded, also one whose coordinate lies outside \<open>imgWidth\<close> x \<open>imgHeight\<close>.
\<close>

record diffImage =
  imgWidth :: nat
  imgHeight :: nat
  pixels :: "nat \<times> nat \<rightharpoonup> color \<times> nat option"

definition png_empty :: "nat \<Rightarrow> nat \<Rightarrow> diffImage" where
  "png_empty w h = \<lparr>imgWidth = w, imgHeight = h, pixels = Map.empty\<rparr>"

definition setPixel :: "diffImage \<Rightarrow> nat \<Rightarrow> nat \<Rightarrow> color \<Rightarrow> nat option \<Rightarrow> diffImage" where
  "setPixel img x y c a = img\<lparr>pixels := (pixels img)((x, y) \<mapsto> (c, a))\<rparr>"

text \<open>
  The JavaScript values an option can hold. Numbers are the finite ones, as reals.
\<close>

datatype jsval = JUndefined | JNull | JBool bool | JNum real

fun truthy :: "jsval \<Rightarrow> bool" where
  "truthy JUndefined = False"
| "truthy JNull = False"
| "truthy (JBool b) = b"
| "truthy (JNum r) = (r \<noteq> 0)"

text \<open>
  \<open>d < v\<close> for a number \<open>d\<close> and any value \<open>v\<close>: \<open>v\<close> is converted to a number first,
  \<open>undefined\<close> becomes NaN and every comparison with NaN is false.
\<close>

fun js_less :: "real \<Rightarrow> jsval \<Rightarrow> bool" where
  "js_less d JUndefined = False"
| "js_less d JNull = (d < 0)"
| "js_less d (JBool b) = (d < (if b then 1 else 0))"
| "js_less d (JNum t) = (d < t)"

text \<open>
  The options object of \<open>looksSame\<close> and \<open>getDiffArea\<close>. A property that is absent reads
  as \<open>undefined\<close>; only for \<open>tolerance\<close> does the code tell an absent key (\<open>None\<close>)
  from a present one (\<open>_.hasIn\<close>). \<open>createDiff\<close> reads further properties of the same
  object, which extend the record.
\<close>

record opts =
  tolerance :: "jsval option"
  strict :: jsval
  ignoreAntialiasing :: jsval
  ignoreCaret :: jsval
  pixelRatio :: jsval

type_synonym source = string

record diffOpts = opts +
  reference :: source
  current :: source
  diffPath :: string
  highlightColorStr :: string
  ignoreDifferentPixelsPair :: "(source \<times> source) option"

definition emptyOpts :: opts where
  "emptyOpts = \<lparr>tolerance = None, strict = JUndefined, ignoreAntialiasing = JUndefined,
     ignoreCaret = JUndefined, pixelRatio = JUndefined\<rparr>"

definition getTolerance :: "'a opts_scheme \<Rightarrow> jsval" where
  "getTolerance opts = (case tolerance opts of None \<Rightarrow> JUndefined | Some t \<Rightarrow> t)"

datatype error = TypeError string | RangeError string

definition JND :: real where
  "JND = 2.3"

section \<open>Comparators\<close>

text \<open>
  What a comparator is called with: \<open>buildDiffImage\<close> passes \<open>{color1, color2}\<close> only
  (\<open>position = None\<close>), a raster scan also says where the pixel is.
\<close>

record data =
  color1 :: color
  color2 :: color
  position :: "(nat \<times> nat) option"

text \<open>
  The comparator closures that \<open>index.js\<close> builds, as the terms that build them.
\<close>

datatype comparator =
    AreColorsSame
  | DoColorsLookSame jsval
  | Antialiasing comparator png png
  | NoCaret comparator jsval

definition makeCIEDE2000Comparator :: "jsval \<Rightarrow> comparator" where
  "makeCIEDE2000Comparator tol = DoColorsLookSame tol"

definition makeAntialiasingComparator :: "comparator \<Rightarrow> png \<Rightarrow> png \<Rightarrow> comparator" where
  "makeAntialiasingComparator cmp png1 png2 = Antialiasing cmp png1 png2"

definition makeNoCaretColorComparator :: "comparator \<Rightarrow> jsval \<Rightarrow> comparator" where
  "makeNoCaretColorComparator cmp ratio = NoCaret cmp ratio"

definition createComparator :: "png \<Rightarrow> png \<Rightarrow> 'a opts_scheme \<Rightarrow> comparator" where
  "createComparator png1 png2 opts =
     (let comparator0 = (if truthy (strict opts) then AreColorsSame
                         else makeCIEDE2000Comparator (getTolerance opts));
          comparator1 = (if truthy (ignoreAntialiasing opts)
                         then makeAntialiasingComparator comparator0 png1 png2
                         else comparator0)
      in if truthy (ignoreCaret opts)
         then makeNoCaretColorComparator comparator1 (pixelRatio opts)
         else comparator1)"

text \<open>
  What lies outside the repository or outside \<open>index.js\<close> and is taken as given: the
  package \<open>color-diff\<close> (\<open>rgb_to_lab\<close>, \<open>diff\<close>), the package \<open>parse-color\<close>
  (the \<open>rgb\<close> property of what it returns, \<open>None\<close> when the string is no colour and
  the property is \<open>undefined\<close>), the \<open>compare\<close> methods of the two wrapper classes, each
  a function of the wrapped comparator and of the values the wrapper was built with, and the
  largest number of arguments the engine accepts in one call.
\<close>

type_synonym lab = "real \<times> real \<times> real"

record libs =
  rgb_to_lab :: "color \<Rightarrow> lab"
  labDiff :: "lab \<Rightarrow> lab \<Rightarrow> real"
  parseColor :: "string \<Rightarrow> (nat \<times> nat \<times> nat) option"
  antialiasingCompare :: "(data \<Rightarrow> bool) \<Rightarrow> png \<Rightarrow> png \<Rightarrow> data \<Rightarrow> bool"
  caretCompare :: "(data \<Rightarrow> bool) \<Rightarrow> jsval \<Rightarrow> data \<Rightarrow> bool"
  maxArguments :: nat

text \<open>
  Modelled from the spec: \<open>lib/same-colors\<close> is not part of \<open>index.js\<close>; the exact
  comparator is true iff all channels are equal.
\<close>

definition areColorsSame :: "data \<Rightarrow> bool" where
  "areColorsSame d =
     (R (color1 d) = R (color2 d) \<and> G (color1 d) = G (color2 d) \<and> B (color1 d) = B (color2 d))"

text \<open>
  The closure \<open>doColorsLookSame\<close>. Beside its verdict it returns how many calls of
  \<open>rgb_to_lab\<close> it made.
\<close>

definition doColorsLookSame :: "libs \<Rightarrow> jsval \<Rightarrow> data \<Rightarrow> bool \<times> nat" where
  "doColorsLookSame L tol d =
     (if areColorsSame d then (True, 0)
      else (let lab1 = rgb_to_lab L (color1 d);
                lab2 = rgb_to_lab L (color2 d)
            in (js_less (labDiff L lab1 lab2) tol, 2)))"

fun compare :: "libs \<Rightarrow> comparator \<Rightarrow> data \<Rightarrow> bool" where
  "compare L AreColorsSame d = areColorsSame d"
| "compare L (DoColorsLookSame tol) d = fst (doColorsLookSame L tol d)"
| "compare L (Antialiasing cmp png1 png2) d = antialiasingCompare L (compare L cmp) png1 png2 d"
| "compare L (NoCaret cmp ratio) d = caretCompare L (compare L cmp) ratio d"

section \<open>Bounding box\<close>

text \<open>
  \<open>Math.min\<close> and \<open>Math.max\<close> of no arguments are \<open>Infinity\<close> and \<open>-Infinity\<close>
  (\<open>None\<close>): on the empty list \<open>getDiffArea\<close> returns
  \<open>{left: Infinity, top: Infinity, width: -Infinity, height: -Infinity}\<close>, here \<open>InfiniteArea\<close>.
\<close>

datatype diffArea =
    DiffArea (areaLeft: int) (areaTop: int) (areaWidth: int) (areaHeight: int)
  | InfiniteArea

fun math_min :: "int list \<Rightarrow> int option" where
  "math_min [] = None"
| "math_min (v # vs) = Some (fold min vs v)"

fun math_max :: "int list \<Rightarrow> int option" where
  "math_max [] = None"
| "math_max (v # vs) = Some (fold max vs v)"

text \<open>
  \<open>f.apply(Math, args)\<close> passes every element of the array as an argument of one call: with
  more elements than the engine accepts, the call throws a RangeError.
\<close>

definition stackError :: error where
  "stackError = RangeError ''Maximum call stack size exceeded''"

definition math_apply :: "libs \<Rightarrow> (int list \<Rightarrow> int option) \<Rightarrow> int list \<Rightarrow> error + int option" where
  "math_apply L f args = (if length args > maxArguments L then Inl stackError else Inr (f args))"

definition getDiffArea :: "libs \<Rightarrow> (int \<times> int) list \<Rightarrow> error + diffArea" where
  "getDiffArea L diffPixelsCoords =
     (let xs = map fst diffPixelsCoords;
          ys = map snd diffPixelsCoords
      in case math_apply L math_min ys of Inl e \<Rightarrow> Inl e | Inr top' \<Rightarrow>
         (case math_apply L math_max ys of Inl e \<Rightarrow> Inl e | Inr bottom' \<Rightarrow>
         (case math_apply L math_min xs of Inl e \<Rightarrow> Inl e | Inr left' \<Rightarrow>
         (case math_apply L math_max xs of Inl e \<Rightarrow> Inl e | Inr right' \<Rightarrow>
            Inr (case (top', bottom', left', right') of
                   (Some t, Some b, Some l, Some r) \<Rightarrow> DiffArea l t ((r - l) + 1) ((b - t) + 1)
                 | _ \<Rightarrow> InfiniteArea)))))"

section \<open>The diff image\<close>

text \<open>
  \<open>iterateRect\<close>: \<open>processRow(y)\<close> runs the callback along row \<open>y\<close>, then the row-done
  callback, then goes on to row \<open>y + 1\<close> unless \<open>y >= height\<close>. \<open>setImmediate\<close> only
  defers each row; the rows run one after the other, in this order. The callbacks act on the
  variables they close over, here the state \<open>'s\<close>.
\<close>

function processRow ::
  "nat \<Rightarrow> nat \<Rightarrow> (nat \<Rightarrow> nat \<Rightarrow> 's \<Rightarrow> 's) \<Rightarrow> (nat \<Rightarrow> bool \<Rightarrow> 's \<Rightarrow> 's) \<Rightarrow> nat \<Rightarrow> 's \<Rightarrow> 's" where
  "processRow w h callback rowDoneCallback y s =
     (let s1 = fold (\<lambda>x. callback x y) [0..<w] s;
          isLastRow = (y \<ge> h);
          s2 = rowDoneCallback y isLastRow s1
      in if \<not> isLastRow then processRow w h callback rowDoneCallback (y + 1) s2 else s2)"
  by pat_completeness auto
termination
  by (relation "measure (\<lambda>(w, h, callback, rowDoneCallback, y, s). h - y)") auto

definition iterateRect ::
  "nat \<Rightarrow> nat \<Rightarrow> (nat \<Rightarrow> nat \<Rightarrow> 's \<Rightarrow> 's) \<Rightarrow> (nat \<Rightarrow> bool \<Rightarrow> 's \<Rightarrow> 's) \<Rightarrow> ('s \<Rightarrow> 'r) \<Rightarrow> 's \<Rightarrow> 'r" where
  "iterateRect w h callback rowDoneCallback endCallback s =
     endCallback (processRow w h callback rowDoneCallback 0 s)"

text \<open>
  A row of difference marks is a JavaScript array that only ever receives \<open>true\<close>:
  \<open>row[x] = true\<close> beyond the end lengthens the array and leaves holes, a read of a hole
  or outside the array (also at index \<open>-1\<close>) is \<open>undefined\<close>, which is not \<open>=== true\<close>.
  A hole is \<open>False\<close> here.
\<close>

definition rowSet :: "bool list \<Rightarrow> nat \<Rightarrow> bool list" where
  "rowSet row x =
     (if x < length row then row[x := True]
      else row @ replicate (x - length row) False @ [True])"

definition rowIsTrue :: "bool list \<Rightarrow> int \<Rightarrow> bool" where
  "rowIsTrue row i = (0 \<le> i \<and> nat i < length row \<and> row ! nat i)"

record diffOptions =
  highlightColor :: color
  comparator :: comparator
  ignoreDifferentPixels :: "(nat \<Rightarrow> nat \<Rightarrow> bool) option"

record diffState =
  result :: diffImage
  differences :: int
  pixelIgnored :: bool
  prevPrevRow :: "bool list"
  prevRow :: "bool list"
  currentRow :: "bool list"

definition pixelCallback ::
  "libs \<Rightarrow> png \<Rightarrow> png \<Rightarrow> diffOptions \<Rightarrow> nat \<Rightarrow> nat \<Rightarrow> nat \<Rightarrow> nat \<Rightarrow> diffState \<Rightarrow> diffState" where
  "pixelCallback L png1 png2 options minWidth minHeight x y st =
     (if x \<ge> minWidth \<or> y \<ge> minHeight
      then st\<lparr>result := setPixel (result st) x y (highlightColor options) None\<rparr>
      else
        (let c1 = getPixel png1 x y;
             c2 = getPixel png2 x y
         in if \<not> compare L (comparator options) \<lparr>color1 = c1, color2 = c2, position = None\<rparr>
            then
              (if (case ignoreDifferentPixels options of None \<Rightarrow> False | Some f \<Rightarrow> f x y)
               then st\<lparr>pixelIgnored := True,
                       result := setPixel (result st) x y c1 (Some 100)\<rparr>
               else st\<lparr>currentRow := rowSet (currentRow st) x,
                       result := setPixel (result st) x y (highlightColor options) None,
                       differences := differences st + 1\<rparr>)
            else st\<lparr>result := setPixel (result st) x y c1 (Some 100)\<rparr>))"

definition hasNeighboorDiff :: "diffState \<Rightarrow> nat \<Rightarrow> bool" where
  "hasNeighboorDiff st x =
     (rowIsTrue (prevPrevRow st) (int x - 1) \<or> rowIsTrue (prevPrevRow st) (int x) \<or>
        rowIsTrue (prevPrevRow st) (int x + 1) \<or>
      rowIsTrue (prevRow st) (int x - 1) \<or> rowIsTrue (prevRow st) (int x + 1) \<or>
      rowIsTrue (currentRow st) (int x - 1) \<or> rowIsTrue (currentRow st) (int x) \<or>
        rowIsTrue (currentRow st) (int x + 1))"

text \<open>
  \<open>checkRow(y)\<close> is called with \<open>y - 1\<close> where \<open>y\<close> may be 0, so its argument is an
  integer; it then touches no pixel, because \<open>prevRow\<close> is empty before the first rotation.
  A pixel is only read and written at a row that is not negative.
\<close>

definition checkRowStep :: "png \<Rightarrow> int \<Rightarrow> nat \<Rightarrow> diffState \<Rightarrow> diffState" where
  "checkRowStep png1 y x st =
     (if rowIsTrue (prevRow st) (int x) then
        (if \<not> hasNeighboorDiff st x
         then st\<lparr>result := setPixel (result st) x (nat y) (getPixel png1 x (nat y)) (Some 100),
                 differences := differences st - 1\<rparr>
         else st)
      else st)"

definition checkRow :: "png \<Rightarrow> int \<Rightarrow> diffState \<Rightarrow> diffState" where
  "checkRow png1 y st = fold (checkRowStep png1 y) [0..<length (prevRow st)] st"

definition rowDoneCallback :: "png \<Rightarrow> nat \<Rightarrow> bool \<Rightarrow> diffState \<Rightarrow> diffState" where
  "rowDoneCallback png1 y isLastRow st =
     (let st1 = checkRow png1 (int y - 1) st;
          st2 = st1\<lparr>prevPrevRow := prevRow st1, prevRow := currentRow st1, currentRow := []\<rparr>
      in if isLastRow then checkRow png1 (int y) st2 else st2)"

definition endCallback :: "diffState \<Rightarrow> diffImage \<times> bool \<times> bool" where
  "endCallback st = (result st, differences st = 0, pixelIgnored st)"

definition initialState :: "nat \<Rightarrow> nat \<Rightarrow> diffState" where
  "initialState w h = \<lparr>result = png_empty w h, differences = 0, pixelIgnored = False,
     prevPrevRow = [], prevRow = [], currentRow = []\<rparr>"

text \<open>
  \<open>buildDiffImage\<close> hands \<open>(result, differences === 0, pixelIgnored)\<close> to its callback;
  \<open>buildDiffImageState\<close> is the state of its variables at that moment.
\<close>

definition buildDiffImageState :: "libs \<Rightarrow> png \<Rightarrow> png \<Rightarrow> diffOptions \<Rightarrow> diffState" where
  "buildDiffImageState L png1 png2 options =
     iterateRect (max (width png1) (width png2)) (max (height png1) (height png2))
       (pixelCallback L png1 png2 options
          (min (width png1) (width png2)) (min (height png1) (height png2)))
       (rowDoneCallback png1) (\<lambda>st. st)
       (initialState (max (width png1) (width png2)) (max (height png1) (height png2)))"

definition buildDiffImage :: "libs \<Rightarrow> png \<Rightarrow> png \<Rightarrow> diffOptions \<Rightarrow> diffImage \<times> bool \<times> bool" where
  "buildDiffImage L png1 png2 options =
     iterateRect (max (width png1) (width png2)) (max (height png1) (height png2))
       (pixelCallback L png1 png2 options
          (min (width png1) (width png2)) (min (height png1) (height png2)))
       (rowDoneCallback png1) endCallback
       (initialState (max (width png1) (width png2)) (max (height png1) (height png2)))"

section \<open>Options\<close>

text \<open>The error that \<open>getToleranceFromOpts\<close> throws.\<close>

definition strictToleranceError :: error where
  \<open>strictToleranceError =
     TypeError ''Unable to use "strict" and "tolerance" options together''\<close>

definition getToleranceFromOpts :: "'a opts_scheme \<Rightarrow> error + jsval" where
  "getToleranceFromOpts opts =
     (case tolerance opts of
        None \<Rightarrow> Inr (JNum JND)
      | Some t \<Rightarrow> if truthy (strict opts) then Inl strictToleranceError else Inr t)"

definition prepareOpts :: "'a opts_scheme \<Rightarrow> error + 'a opts_scheme" where
  "prepareOpts opts =
     (case getToleranceFromOpts opts of
        Inl e \<Rightarrow> Inl e
      | Inr t \<Rightarrow>
          (let opts1 = opts\<lparr>tolerance := Some t\<rparr>
           in Inr (if ignoreAntialiasing opts1 = JUndefined
                   then opts1\<lparr>ignoreAntialiasing := JBool True\<rparr>
                   else opts1)))"

section \<open>Public operations\<close>

text \<open>
  What an operation does to the outside is listed in the order in which it happens: a pair of
  images read, a comparator called on the pixel at \<open>(x, y)\<close>, an image saved.
\<close>

datatype event = ReadPair source source | Compare nat nat | Save string

text \<open>
  An operation ends in one of four ways: it throws before it returns (\<open>Threw\<close>), it reports
  a failure of a collaborator to the callback or rejects its promise (\<open>Failed\<close>), it
  passes a value to the callback or resolves its promise (\<open>Completed\<close>), or an exception
  leaves the callback that a collaborator calls later, and then the operation's own callback
  is never called and its promise never settled (\<open>Uncaught\<close>).
\<close>

datatype 'a outcome = Threw error | Failed string | Completed 'a | Uncaught error

text \<open>
  \<open>optsAfter\<close> is the options object the call worked on, as the call leaves it.
\<close>

record 'a call =
  events :: "event list"
  outcome :: "'a outcome"
  optsAfter :: opts

text \<open>
  \<open>looksSame(reference, image, opts, callback)\<close> and \<open>looksSame(reference, image, callback)\<close>:
  in the second form the function works on a fresh \<open>{}\<close>.
\<close>

datatype callForm = WithOpts opts | WithoutOpts

text \<open>
  The collaborators that read and write files: \<open>readPair\<close> yields an error or the two
  rasters, \<open>save\<close> an error or nothing.
\<close>

record io =
  readPair :: "source \<Rightarrow> source \<Rightarrow> string + png \<times> png"
  save :: "diffImage \<Rightarrow> string \<Rightarrow> string option"

text \<open>
  Modelled from the spec: \<open>getDiffPixelsCoords\<close> of \<open>lib/utils\<close> is not part of
  \<open>index.js\<close>. The scan goes row by row over the coordinates common to both rasters, calls
  the comparator on each pixel and collects the coordinates where it answers false; with
  \<open>stopOnFirstFail\<close> it stops at the first of them. It returns the coordinates and the
  comparator calls it made.
\<close>

fun scanPixels ::
  "(data \<Rightarrow> bool) \<Rightarrow> png \<Rightarrow> png \<Rightarrow> bool \<Rightarrow> (nat \<times> nat) list \<Rightarrow> (int \<times> int) list \<times> event list" where
  "scanPixels predicate png1 png2 stopOnFirstFail [] = ([], [])"
| "scanPixels predicate png1 png2 stopOnFirstFail ((x, y) # rest) =
     (if predicate \<lparr>color1 = getPixel png1 x y, color2 = getPixel png2 x y,
                    position = Some (x, y)\<rparr>
      then (case scanPixels predicate png1 png2 stopOnFirstFail rest of
              (coords, calls) \<Rightarrow> (coords, Compare x y # calls))
      else if stopOnFirstFail then ([(int x, int y)], [Compare x y])
      else (case scanPixels predicate png1 png2 stopOnFirstFail rest of
              (coords, calls) \<Rightarrow> ((int x, int y) # coords, Compare x y # calls)))"

definition rasterCoords :: "nat \<Rightarrow> nat \<Rightarrow> (nat \<times> nat) list" where
  "rasterCoords w h = concat (map (\<lambda>y. map (\<lambda>x. (x, y)) [0..<w]) [0..<h])"

definition getDiffPixelsCoords ::
  "libs \<Rightarrow> png \<Rightarrow> png \<Rightarrow> comparator \<Rightarrow> bool \<Rightarrow> (int \<times> int) list \<times> event list" where
  "getDiffPixelsCoords L png1 png2 cmp stopOnFirstFail =
     scanPixels (compare L cmp) png1 png2 stopOnFirstFail
       (rasterCoords (min (width png1) (width png2)) (min (height png1) (height png2)))"

definition looksSame :: "libs \<Rightarrow> io \<Rightarrow> source \<Rightarrow> source \<Rightarrow> callForm \<Rightarrow> bool call" where
  "looksSame L io reference' image' form =
     (let opts = (case form of WithOpts given \<Rightarrow> given | WithoutOpts \<Rightarrow> emptyOpts)
      in case prepareOpts opts of
           Inl e \<Rightarrow> \<lparr>events = [], outcome = Threw e, optsAfter = opts\<rparr>
         | Inr opts' \<Rightarrow>
             (case readPair io reference' image' of
                Inl err \<Rightarrow>
                  \<lparr>events = [ReadPair reference' image'], outcome = Failed err, optsAfter = opts'\<rparr>
              | Inr (first, second) \<Rightarrow>
                  if width first \<noteq> width second \<or> height first \<noteq> height second
                  then \<lparr>events = [ReadPair reference' image'], outcome = Completed False,
                         optsAfter = opts'\<rparr>
                  else
                    (case getDiffPixelsCoords L first second
                            (createComparator first second opts') True of
                       (res, calls) \<Rightarrow>
                         \<lparr>events = ReadPair reference' image' # calls,
                          outcome = Completed (res = []), optsAfter = opts'\<rparr>)))"

definition exports_getDiffArea ::
  "libs \<Rightarrow> io \<Rightarrow> source \<Rightarrow> source \<Rightarrow> callForm \<Rightarrow> diffArea option call" where
  "exports_getDiffArea L io reference' image' form =
     (let opts = (case form of WithOpts given \<Rightarrow> given | WithoutOpts \<Rightarrow> emptyOpts)
      in case prepareOpts opts of
           Inl e \<Rightarrow> \<lparr>events = [], outcome = Threw e, optsAfter = opts\<rparr>
         | Inr opts' \<Rightarrow>
             (case readPair io reference' image' of
                Inl err \<Rightarrow>
                  \<lparr>events = [ReadPair reference' image'], outcome = Failed err, optsAfter = opts'\<rparr>
              | Inr (first, second) \<Rightarrow>
                  if width first \<noteq> width second \<or> height first \<noteq> height second
                  then \<lparr>events = [ReadPair reference' image'],
                         outcome = Completed (Some (DiffArea 0 0
                            (int (max (width first) (width second)))
                            (int (max (height first) (height second))))),
                         optsAfter = opts'\<rparr>
                  else
                    (case getDiffPixelsCoords L first second
                            (createComparator first second opts') False of
                       (res, calls) \<Rightarrow>
                         \<lparr>events = ReadPair reference' image' # calls,
                          outcome = (if res = [] then Completed None
                                     else case getDiffArea L res of
                                            Inl e \<Rightarrow> Uncaught e
                                          | Inr area \<Rightarrow> Completed (Some area)),
                          optsAfter = opts'\<rparr>)))"

text \<open>
  \<open>parseColorString\<close> reads \<open>parsed.rgb[0]\<close>: when \<open>parsed.rgb\<close> is \<open>undefined\<close> that is
  a TypeError.
\<close>

definition rgbError :: error where
  "rgbError = TypeError ''Cannot read property 0 of undefined''"

definition parseColorString :: "libs \<Rightarrow> string \<Rightarrow> error + color" where
  "parseColorString L str =
     (case parseColor L str of
        None \<Rightarrow> Inl rgbError
      | Some (r, g, b) \<Rightarrow> Inr \<lparr>R = r, G = g, B = b\<rparr>)"

text \<open>
  The closure that \<open>createDiff\<close> installs as \<open>diffOptions.ignoreDifferentPixels\<close>, over
  the second pair of rasters and the comparator of \<open>diffOptions\<close>.
\<close>

definition ignoreDifferentPixelsFn :: "libs \<Rightarrow> comparator \<Rightarrow> png \<Rightarrow> png \<Rightarrow> nat \<Rightarrow> nat \<Rightarrow> bool" where
  "ignoreDifferentPixelsFn L cmp png1 png2 x y =
     (let maxWidth = max (width png1) (width png2);
          maxHeight = max (height png1) (height png2);
          minWidth = min (width png1) (width png2);
          minHeight = min (height png1) (height png2)
      in if x \<ge> minWidth then x < maxWidth
         else if y \<ge> minHeight then y < maxHeight
         else \<not> compare L cmp \<lparr>color1 = getPixel png1 x y, color2 = getPixel png2 x y,
                                 position = None\<rparr>)"

datatype diffResult = Equal bool | NotEqual

text \<open>
  \<open>createDiffOptions\<close> is the object \<open>diffOptions\<close> as \<open>createDiff\<close> first builds it,
  or the error that \<open>parseColorString\<close> throws while it is built.
\<close>

definition createDiffOptions :: "libs \<Rightarrow> diffOpts \<Rightarrow> jsval \<Rightarrow> error + diffOptions" where
  "createDiffOptions L opts tol =
     (case parseColorString L (highlightColorStr opts) of
        Inl e \<Rightarrow> Inl e
      | Inr highlight \<Rightarrow>
          Inr \<lparr>highlightColor = highlight,
               comparator = (if truthy (strict opts) then AreColorsSame
                             else makeCIEDE2000Comparator tol),
               ignoreDifferentPixels = None\<rparr>)"

definition start ::
  "libs \<Rightarrow> io \<Rightarrow> diffOpts \<Rightarrow> png \<times> png \<Rightarrow> diffOptions \<Rightarrow> event list \<times> diffResult outcome" where
  "start L io opts pair diffOptions =
     (case buildDiffImage L (fst pair) (snd pair) diffOptions of
        (img, equal, ignored) \<Rightarrow>
          if equal then ([], Completed (Equal ignored))
          else (case save io img (diffPath opts) of
                  Some err \<Rightarrow> ([Save (diffPath opts)], Failed err)
                | None \<Rightarrow> ([Save (diffPath opts)], Completed NotEqual)))"

definition createDiff :: "libs \<Rightarrow> io \<Rightarrow> diffOpts \<Rightarrow> event list \<times> diffResult outcome" where
  "createDiff L io opts =
     (case getToleranceFromOpts opts of
        Inl e \<Rightarrow> ([], Threw e)
      | Inr tol \<Rightarrow>
          (case readPair io (reference opts) (current opts) of
             Inl err \<Rightarrow> ([ReadPair (reference opts) (current opts)], Failed err)
           | Inr pair \<Rightarrow>
               (case createDiffOptions L opts tol of
                  Inl e \<Rightarrow> ([ReadPair (reference opts) (current opts)], Uncaught e)
                | Inr diffOptions \<Rightarrow>
                    (case ignoreDifferentPixelsPair opts of
                       Some (otherReference, otherCurrent) \<Rightarrow>
                         (case readPair io otherReference otherCurrent of
                            Inl err \<Rightarrow>
                              ([ReadPair (reference opts) (current opts),
                                ReadPair otherReference otherCurrent], Failed err)
                          | Inr (png1, png2) \<Rightarrow>
                              (case start L io opts pair
                                      (diffOptions\<lparr>ignoreDifferentPixels :=
                                         Some (ignoreDifferentPixelsFn L (comparator diffOptions)
                                                 png1 png2)\<rparr>) of
                                 (evs, res) \<Rightarrow>
                                   ([ReadPair (reference opts) (current opts),
                                     ReadPair otherReference otherCurrent] @ evs, res)))
                     | None \<Rightarrow>
                         (case start L io opts pair diffOptions of
                            (evs, res) \<Rightarrow>
                              (ReadPair (reference opts) (current opts) # evs, res))))))"

text \<open>
  \<open>colors(color1, color2, opts)\<close>: \<open>opts\<close> may be left out. No path of it throws; it
  returns the verdict of the comparator.
\<close>

definition colors :: "libs \<Rightarrow> color \<Rightarrow> color \<Rightarrow> opts option \<Rightarrow> bool outcome" where
  "colors L c1 c2 given =
     (let opts0 = (case given of Some obj \<Rightarrow> obj | None \<Rightarrow> emptyOpts);
          opts1 = (if getTolerance opts0 = JUndefined then opts0\<lparr>tolerance := Some (JNum JND)\<rparr>
                   else opts0)
      in Completed (compare L (makeCIEDE2000Comparator (getTolerance opts1))
                      \<lparr>color1 = c1, color2 = c2, position = None\<rparr>))"

section \<open>Vocabulary for the diff image\<close>

text \<open>
  The pixel at \<open>(x, y)\<close> is marked in \<open>currentRow\<close>: it lies inside both rasters, the
  comparator rejects it and the ignore predicate, if there is one, does not take it.
\<close>

definition flagged :: "libs \<Rightarrow> png \<Rightarrow> png \<Rightarrow> diffOptions \<Rightarrow> nat \<Rightarrow> nat \<Rightarrow> bool" where
  "flagged L png1 png2 options x y =
     (x < min (width png1) (width png2) \<and> y < min (height png1) (height png2) \<and>
      \<not> compare L (comparator options)
           \<lparr>color1 = getPixel png1 x y, color2 = getPixel png2 x y, position = None\<rparr> \<and>
      \<not> (case ignoreDifferentPixels options of None \<Rightarrow> False | Some f \<Rightarrow> f x y))"

text \<open>
  The pixel is one the ignore predicate takes: inside both rasters, rejected by the comparator,
  accepted by \<open>ignoreDifferentPixels\<close>.
\<close>

definition ignoredPixel :: "libs \<Rightarrow> png \<Rightarrow> png \<Rightarrow> diffOptions \<Rightarrow> nat \<Rightarrow> nat \<Rightarrow> bool" where
  "ignoredPixel L png1 png2 options x y =
     (x < min (width png1) (width png2) \<and> y < min (height png1) (height png2) \<and>
      \<not> compare L (comparator options)
           \<lparr>color1 = getPixel png1 x y, color2 = getPixel png2 x y, position = None\<rparr> \<and>
      (case ignoreDifferentPixels options of None \<Rightarrow> False | Some f \<Rightarrow> f x y))"

text \<open>
  \<open>flagged\<close> at integer coordinates; nothing is marked at a negative coordinate.
\<close>

definition flaggedAt :: "libs \<Rightarrow> png \<Rightarrow> png \<Rightarrow> diffOptions \<Rightarrow> int \<Rightarrow> int \<Rightarrow> bool" where
  "flaggedAt L png1 png2 options i j = (0 \<le> i \<and> 0 \<le> j \<and> flagged L png1 png2 options (nat i) (nat j))"

text \<open>
  What the per-pixel callback writes at \<open>(x, y)\<close>.
\<close>

definition scanPixel :: "libs \<Rightarrow> png \<Rightarrow> png \<Rightarrow> diffOptions \<Rightarrow> nat \<Rightarrow> nat \<Rightarrow> color \<times> nat option" where
  "scanPixel L png1 png2 options x y =
     (if x \<ge> min (width png1) (width png2) \<or> y \<ge> min (height png1) (height png2)
         \<or> flagged L png1 png2 options x y
      then (highlightColor options, None)
      else (getPixel png1 x y, Some 100))"

text \<open>
  The \<open>for\<close> loop of \<open>processRow\<close> over the first \<open>n\<close> columns of row \<open>y\<close>, with the
  callback of \<open>buildDiffImage\<close>.
\<close>

definition scanRow :: "libs \<Rightarrow> png \<Rightarrow> png \<Rightarrow> diffOptions \<Rightarrow> nat \<Rightarrow> nat \<Rightarrow> diffState \<Rightarrow> diffState" where
  "scanRow L png1 png2 options n y =
     fold (\<lambda>x. pixelCallback L png1 png2 options
                 (min (width png1) (width png2)) (min (height png1) (height png2)) x y) [0..<n]"

text \<open>
  One of the 8 neighbours of \<open>(i, j)\<close>, in the previous, the same or the next row, is marked.
\<close>

definition flaggedNear :: "libs \<Rightarrow> png \<Rightarrow> png \<Rightarrow> diffOptions \<Rightarrow> int \<Rightarrow> int \<Rightarrow> bool" where
  "flaggedNear L png1 png2 options i j =
     (flaggedAt L png1 png2 options (i - 1) (j - 1) \<or>
      flaggedAt L png1 png2 options i (j - 1) \<or>
      flaggedAt L png1 png2 options (i + 1) (j - 1) \<or>
      flaggedAt L png1 png2 options (i - 1) j \<or>
      flaggedAt L png1 png2 options (i + 1) j \<or>
      flaggedAt L png1 png2 options (i - 1) (j + 1) \<or>
      flaggedAt L png1 png2 options i (j + 1) \<or>
      flaggedAt L png1 png2 options (i + 1) (j + 1))"

definition hasFlaggedNeighbour :: "libs \<Rightarrow> png \<Rightarrow> png \<Rightarrow> diffOptions \<Rightarrow> nat \<Rightarrow> nat \<Rightarrow> bool" where
  "hasFlaggedNeighbour L png1 png2 options x y = flaggedNear L png1 png2 options (int x) (int y)"

text \<open>
  The test of \<open>checkRow\<close> at column \<open>x\<close>, on the three rows a state holds.
\<close>

definition isolatedIn :: "diffState \<Rightarrow> nat \<Rightarrow> bool" where
  "isolatedIn st x = (rowIsTrue (prevRow st) (int x) \<and> \<not> hasNeighboorDiff st x)"

text \<open>
  The loop of \<open>checkRow\<close> over the first \<open>n\<close> columns.
\<close>

definition checkRowUpto :: "png \<Rightarrow> int \<Rightarrow> nat \<Rightarrow> diffState \<Rightarrow> diffState" where
  "checkRowUpto png1 y n = fold (checkRowStep png1 y) [0..<n]"

text \<open>
  What the finished raster holds at a pixel of a row that \<open>checkRow\<close> has visited.
\<close>

definition finalPixel :: "libs \<Rightarrow> png \<Rightarrow> png \<Rightarrow> diffOptions \<Rightarrow> nat \<Rightarrow> nat \<Rightarrow> color \<times> nat option" where
  "finalPixel L png1 png2 options x y =
     (if flagged L png1 png2 options x y \<and> \<not> hasFlaggedNeighbour L png1 png2 options x y
      then (getPixel png1 x y, Some 100)
      else scanPixel L png1 png2 options x y)"

text \<open>
  The number of marked pixels of row \<open>j\<close> without a marked neighbour.
\<close>

definition isolatedCount :: "libs \<Rightarrow> png \<Rightarrow> png \<Rightarrow> diffOptions \<Rightarrow> int \<Rightarrow> nat" where
  "isolatedCount L png1 png2 options j =
     card {x. flaggedAt L png1 png2 options (int x) j \<and> \<not> flaggedNear L png1 png2 options (int x) j}"

text \<open>
  One round of \<open>processRow\<close> in \<open>buildDiffImage\<close>: the row, then the row-done callback.
\<close>

definition rowStep :: "libs \<Rightarrow> png \<Rightarrow> png \<Rightarrow> diffOptions \<Rightarrow> nat \<Rightarrow> diffState \<Rightarrow> diffState" where
  "rowStep L png1 png2 options y st =
     rowDoneCallback png1 y (y \<ge> max (height png1) (height png2))
       (scanRow L png1 png2 options (max (width png1) (width png2)) y st)"

text \<open>
  The state of \<open>buildDiffImage\<close> when \<open>processRow(y)\<close> begins: rows \<open>y - 1\<close> and
  \<open>y - 2\<close> are held in \<open>prevRow\<close> and \<open>prevPrevRow\<close>, the counter has every mark of the
  rows scanned minus the retractions made so far, rows below \<open>y - 1\<close> are final and row
  \<open>y - 1\<close> is as scanned.
\<close>

definition rowInv :: "libs \<Rightarrow> png \<Rightarrow> png \<Rightarrow> diffOptions \<Rightarrow> nat \<Rightarrow> diffState \<Rightarrow> bool" where
  "rowInv L png1 png2 options y st \<longleftrightarrow>
     currentRow st = [] \<and>
     (\<forall>i. rowIsTrue (prevRow st) i = flaggedAt L png1 png2 options i (int y - 1)) \<and>
     (\<forall>i. rowIsTrue (prevPrevRow st) i = flaggedAt L png1 png2 options i (int y - 2)) \<and>
     differences st =
       (\<Sum>y'<y. int (card {x. flagged L png1 png2 options x y'})) -
       (\<Sum>y'<y. int (isolatedCount L png1 png2 options (int y' - 1))) \<and>
     (\<forall>x y'. pixels (result st) (x, y') =
        (if x < max (width png1) (width png2) \<and> y' < y
         then Some (if Suc y' < y then finalPixel L png1 png2 options x y'
                    else scanPixel L png1 png2 options x y')
         else None)) \<and>
     (pixelIgnored st \<longleftrightarrow>
        (\<exists>x y'. x < max (width png1) (width png2) \<and> y' < y \<and> ignoredPixel L png1 png2 options x y'))"

section \<open>Vocabulary for the raster scan\<close>

text \<open>The comparator accepts the pixel at a coordinate of the two rasters.\<close>

definition accepts :: "(data \<Rightarrow> bool) \<Rightarrow> png \<Rightarrow> png \<Rightarrow> nat \<times> nat \<Rightarrow> bool" where
  "accepts predicate png1 png2 c =
     predicate \<lparr>color1 = getPixel png1 (fst c) (snd c), color2 = getPixel png2 (fst c) (snd c),
                position = Some c\<rparr>"

text \<open>The coordinates, inside both rasters, of the pixels a comparator rejects.\<close>

definition differingCoords :: "libs \<Rightarrow> comparator \<Rightarrow> png \<Rightarrow> png \<Rightarrow> (int \<times> int) set" where
  "differingCoords L cmp png1 png2 =
     {(int x, int y) | x y.
        x < min (width png1) (width png2) \<and> y < min (height png1) (height png2) \<and>
        \<not> accepts (compare L cmp) png1 png2 (x, y)}"

text \<open>
  The bounding rectangle in the words of the spec: \<open>left\<close> and \<open>top\<close> are the minima of
  the two components, \<open>width = right - left + 1\<close> and \<open>height = bottom - top + 1\<close> with
  \<open>right\<close> and \<open>bottom\<close> the maxima.
\<close>

definition boundingBox :: "(int \<times> int) set \<Rightarrow> diffArea" where
  "boundingBox D =
     DiffArea (Min (fst ` D)) (Min (snd ` D))
       (Max (fst ` D) - Min (fst ` D) + 1) (Max (snd ` D) - Min (snd ` D) + 1)"


section \<open>Example inputs\<close>

text \<open>
  Stand-ins for the collaborators, used to run the model: a Manhattan distance on the
  channels in place of CIEDE2000, a parser that knows one colour, wrappers that only delegate,
  an engine that accepts 125000 arguments.
\<close>

definition libs0 :: libs where
  "libs0 = \<lparr>rgb_to_lab = (\<lambda>c. (real (R c), real (G c), real (B c))),
            labDiff = (\<lambda>p q. \<bar>fst p - fst q\<bar> + \<bar>fst (snd p) - fst (snd q)\<bar>
                              + \<bar>snd (snd p) - snd (snd q)\<bar>),
            parseColor = (\<lambda>str. if str = ''#ff00ff'' then Some (255, 0, 255) else None),
            antialiasingCompare = (\<lambda>base png1 png2 d. base d),
            caretCompare = (\<lambda>base ratio d. base d),
            maxArguments = 125000\<rparr>"

definition white :: color where
  "white = \<lparr>R = 255, G = 255, B = 255\<rparr>"

definition black :: color where
  "black = \<lparr>R = 0, G = 0, B = 0\<rparr>"

definition strictAndTolerance :: opts where
  "strictAndTolerance = emptyOpts\<lparr>tolerance := Some (JNum 5), strict := JBool True\<rparr>"

definition negativeTolerance :: opts where
  "negativeTolerance = emptyOpts\<lparr>tolerance := Some (JNum (- 1))\<rparr>"

definition magenta :: color where
  "magenta = \<lparr>R = 255, G = 0, B = 255\<rparr>"

definition solid :: "nat \<Rightarrow> nat \<Rightarrow> color \<Rightarrow> png" where
  "solid w h c = \<lparr>width = w, height = h, getPixel = (\<lambda>x y. c)\<rparr>"

text \<open>A white raster with black pixels at the listed coordinates.\<close>

definition spotted :: "nat \<Rightarrow> nat \<Rightarrow> (nat \<times> nat) list \<Rightarrow> png" where
  "spotted w h spots =
     \<lparr>width = w, height = h, getPixel = (\<lambda>x y. if (x, y) \<in> set spots then black else white)\<rparr>"

definition strictOptions :: diffOptions where
  "strictOptions = \<lparr>highlightColor = magenta, comparator = AreColorsSame,
     ignoreDifferentPixels = None\<rparr>"

definition files :: "source \<Rightarrow> png option" where
  "files name =
     (if name = ''white1x1.png'' then Some (solid 1 1 white)
      else if name = ''white2x1.png'' then Some (solid 2 1 white)
      else if name = ''white3x3.png'' then Some (solid 3 3 white)
      else if name = ''dot3x3.png'' then Some (spotted 3 3 [(1, 1)])
      else if name = ''pair3x3.png'' then Some (spotted 3 3 [(0, 1), (1, 1)])
      else if name = ''white6x5.png'' then Some (solid 6 5 white)
      else if name = ''three6x5.png'' then Some (spotted 6 5 [(2, 3), (2, 4), (5, 3)])
      else if name = ''white10x10.png'' then Some (solid 10 10 white)
      else if name = ''white12x10.png'' then Some (solid 12 10 white)
      else if name = ''white400x400.png'' then Some (solid 400 400 white)
      else if name = ''black400x400.png'' then Some (solid 400 400 black)
      else None)"

definition io0 :: io where
  "io0 = \<lparr>readPair = (\<lambda>a b. case (files a, files b) of
                               (Some p, Some q) \<Rightarrow> Inr (p, q)
                             | _ \<Rightarrow> Inl ''ENOENT''),
          save = (\<lambda>img path. None)\<rparr>"

definition strictOpts :: opts where
  "strictOpts = emptyOpts\<lparr>strict := JBool True\<rparr>"

definition diffOptsFor :: "source \<Rightarrow> source \<Rightarrow> diffOpts" where
  "diffOptsFor a b = \<lparr>tolerance = None, strict = JBool True, ignoreAntialiasing = JBool True,
     ignoreCaret = JUndefined, pixelRatio = JUndefined, reference = a, current = b,
     diffPath = ''diff.png'', highlightColorStr = ''#ff00ff'',
     ignoreDifferentPixelsPair = None\<rparr>"

definition offWhite :: color where
  "offWhite = \<lparr>R = 255, G = 255, B = 254\<rparr>"

definition strictAA :: opts where
  "strictAA = emptyOpts\<lparr>strict := JBool True, ignoreAntialiasing := JBool True\<rparr>"

definition strictPlain :: opts where
  "strictPlain = emptyOpts\<lparr>strict := JBool True, ignoreAntialiasing := JBool False\<rparr>"


section \<open>Options and errors\<close>

lemma prepareOpts_eq:
  "prepareOpts opts =
     (if tolerance opts \<noteq> None \<and> truthy (strict opts)
      then Inl strictToleranceError
      else Inr (opts\<lparr>tolerance := Some (case tolerance opts of None \<Rightarrow> JNum JND | Some t \<Rightarrow> t),
                     ignoreAntialiasing := (if ignoreAntialiasing opts = JUndefined then JBool True
                                            else ignoreAntialiasing opts)\<rparr>))"
  by (cases "tolerance opts") (simp_all add: prepareOpts_def getToleranceFromOpts_def Let_def)

lemma optsAfter_looksSame:
  "optsAfter (looksSame L io r i (WithOpts given)) =
     (case prepareOpts given of Inl e \<Rightarrow> given | Inr opts' \<Rightarrow> opts')"
  by (simp add: looksSame_def Let_def split: sum.splits prod.splits)

lemma optsAfter_getDiffArea:
  "optsAfter (exports_getDiffArea L io r i (WithOpts given)) =
     (case prepareOpts given of Inl e \<Rightarrow> given | Inr opts' \<Rightarrow> opts')"
  by (simp add: exports_getDiffArea_def Let_def split: sum.splits prod.splits)

text \<open>
  C10. \<open>looksSame\<close> and \<open>getDiffArea\<close> write to the options object they are given:
  unless the call throws (a tolerance key together with \<open>strict\<close>, which leaves the object
  as it was), the object has afterwards \<open>tolerance\<close> set, to 2.3 when the key was absent and
  to its own value otherwise, and \<open>ignoreAntialiasing\<close> set to \<open>true\<close> when it was
  \<open>undefined\<close>; nothing else is changed.
\<close>

theorem prepareOpts_mutates_caller_opts:
  "optsAfter (looksSame L io r i (WithOpts given)) =
     (if tolerance given \<noteq> None \<and> truthy (strict given) then given
      else given\<lparr>tolerance := Some (case tolerance given of None \<Rightarrow> JNum 2.3 | Some t \<Rightarrow> t),
                 ignoreAntialiasing := (if ignoreAntialiasing given = JUndefined then JBool True
                                        else ignoreAntialiasing given)\<rparr>) \<and>
   optsAfter (exports_getDiffArea L io r i (WithOpts given)) =
     (if tolerance given \<noteq> None \<and> truthy (strict given) then given
      else given\<lparr>tolerance := Some (case tolerance given of None \<Rightarrow> JNum 2.3 | Some t \<Rightarrow> t),
                 ignoreAntialiasing := (if ignoreAntialiasing given = JUndefined then JBool True
                                        else ignoreAntialiasing given)\<rparr>)"
  by (simp add: optsAfter_looksSame optsAfter_getDiffArea prepareOpts_eq [unfolded JND_def])

theorem prepareOpts_mutates_caller_opts_witness:
  "optsAfter (looksSame libs0 io0 ''white3x3.png'' ''dot3x3.png'' (WithOpts emptyOpts)) =
     emptyOpts\<lparr>tolerance := Some (JNum 2.3), ignoreAntialiasing := JBool True\<rparr> \<and>
   optsAfter (exports_getDiffArea libs0 io0 ''white3x3.png'' ''dot3x3.png'' (WithOpts emptyOpts)) =
     emptyOpts\<lparr>tolerance := Some (JNum 2.3), ignoreAntialiasing := JBool True\<rparr>"
  using prepareOpts_mutates_caller_opts
    [of libs0 io0 "''white3x3.png''" "''dot3x3.png''" emptyOpts]
  by (simp add: emptyOpts_def)

section \<open>The scan of one row\<close>

lemma rowIsTrue_Nil [simp]: "rowIsTrue [] i = False"
  by (simp add: rowIsTrue_def)

lemma rowIsTrue_rowSet: "rowIsTrue (rowSet row x) i \<longleftrightarrow> rowIsTrue row i \<or> i = int x"
  by (auto simp add: rowIsTrue_def rowSet_def nth_list_update nth_append)

lemma pixelCallback_eq:
  "pixelCallback L png1 png2 options (min (width png1) (width png2)) (min (height png1) (height png2)) x y st =
     st\<lparr>result := setPixel (result st) x y (fst (scanPixel L png1 png2 options x y))
                     (snd (scanPixel L png1 png2 options x y)),
        differences := differences st + (if flagged L png1 png2 options x y then 1 else 0),
        pixelIgnored := (pixelIgnored st \<or> ignoredPixel L png1 png2 options x y),
        currentRow := (if flagged L png1 png2 options x y then rowSet (currentRow st) x
                       else currentRow st)\<rparr>"
  by (auto simp add: pixelCallback_def scanPixel_def flagged_def ignoredPixel_def Let_def
      split: option.splits)

lemma scanRow_Suc:
  "scanRow L png1 png2 options (Suc n) y st =
     pixelCallback L png1 png2 options (min (width png1) (width png2))
       (min (height png1) (height png2)) n y (scanRow L png1 png2 options n y st)"
  by (simp add: scanRow_def)

lemma scanRow_0 [simp]: "scanRow L png1 png2 options 0 y st = st"
  by (simp add: scanRow_def)

lemma scanRow_prevRow [simp]: "prevRow (scanRow L png1 png2 options n y st) = prevRow st"
  by (induction n) (simp_all add: scanRow_Suc pixelCallback_eq)

lemma scanRow_prevPrevRow [simp]: "prevPrevRow (scanRow L png1 png2 options n y st) = prevPrevRow st"
  by (induction n) (simp_all add: scanRow_Suc pixelCallback_eq)

lemma scanRow_currentRow:
  "rowIsTrue (currentRow (scanRow L png1 png2 options n y st)) i \<longleftrightarrow>
     rowIsTrue (currentRow st) i \<or> (0 \<le> i \<and> nat i < n \<and> flagged L png1 png2 options (nat i) y)"
proof (induction n)
  case 0
  show ?case by simp
next
  case (Suc n)
  have "nat i < Suc n \<longleftrightarrow> nat i < n \<or> nat i = n" by auto
  moreover have "0 \<le> i \<and> nat i = n \<longleftrightarrow> i = int n" by auto
  ultimately show ?case
    using Suc by (auto simp add: scanRow_Suc pixelCallback_eq rowIsTrue_rowSet)
qed

lemma card_less_Suc_pred:
  "card {x. x < Suc n \<and> P x} = card {x. x < n \<and> P x} + (if P n then 1 else 0)"
proof (cases "P n")
  case True
  then have "{x. x < Suc n \<and> P x} = insert n {x. x < n \<and> P x}" by (auto simp add: less_Suc_eq)
  then show ?thesis using True by simp
next
  case False
  then have "{x. x < Suc n \<and> P x} = {x. x < n \<and> P x}" by (auto simp add: less_Suc_eq)
  then show ?thesis using False by simp
qed

lemma scanRow_differences:
  "differences (scanRow L png1 png2 options n y st) =
     differences st + int (card {x. x < n \<and> flagged L png1 png2 options x y})"
  by (induction n) (simp_all add: scanRow_Suc pixelCallback_eq card_less_Suc_pred)

lemma scanRow_pixels:
  "pixels (result (scanRow L png1 png2 options n y st)) (x, y') =
     (if y' = y \<and> x < n then Some (scanPixel L png1 png2 options x y)
      else pixels (result st) (x, y'))"
  by (induction n) (auto simp add: scanRow_Suc pixelCallback_eq setPixel_def less_Suc_eq)

lemma scanRow_pixelIgnored:
  "pixelIgnored (scanRow L png1 png2 options n y st) \<longleftrightarrow>
     pixelIgnored st \<or> (\<exists>x<n. ignoredPixel L png1 png2 options x y)"
  by (induction n) (auto simp add: scanRow_Suc pixelCallback_eq less_Suc_eq)

section \<open>The check of one row\<close>

lemma checkRowStep_eq:
  "checkRowStep png1 y x st =
     (if isolatedIn st x
      then st\<lparr>result := setPixel (result st) x (nat y) (getPixel png1 x (nat y)) (Some 100),
              differences := differences st - 1\<rparr>
      else st)"
  by (simp add: checkRowStep_def isolatedIn_def)

lemma checkRowUpto_0 [simp]: "checkRowUpto png1 y 0 st = st"
  by (simp add: checkRowUpto_def)

lemma checkRowUpto_Suc:
  "checkRowUpto png1 y (Suc n) st = checkRowStep png1 y n (checkRowUpto png1 y n st)"
  by (simp add: checkRowUpto_def)

lemma checkRowUpto_rows [simp]:
  "prevRow (checkRowUpto png1 y n st) = prevRow st"
  "prevPrevRow (checkRowUpto png1 y n st) = prevPrevRow st"
  "currentRow (checkRowUpto png1 y n st) = currentRow st"
  "pixelIgnored (checkRowUpto png1 y n st) = pixelIgnored st"
  by (induction n) (simp_all add: checkRowUpto_Suc checkRowStep_eq)

lemma isolatedIn_checkRowUpto [simp]:
  "isolatedIn (checkRowUpto png1 y n st) x = isolatedIn st x"
  by (simp add: isolatedIn_def hasNeighboorDiff_def)

lemma checkRowUpto_differences:
  "differences (checkRowUpto png1 y n st) =
     differences st - int (card {x. x < n \<and> isolatedIn st x})"
  by (induction n) (simp_all add: checkRowUpto_Suc checkRowStep_eq card_less_Suc_pred)

lemma checkRowUpto_pixels:
  "pixels (result (checkRowUpto png1 y n st)) (x, y') =
     (if y' = nat y \<and> x < n \<and> isolatedIn st x then Some (getPixel png1 x (nat y), Some 100)
      else pixels (result st) (x, y'))"
  by (induction n) (auto simp add: checkRowUpto_Suc checkRowStep_eq setPixel_def less_Suc_eq)

lemma isolatedIn_less: "isolatedIn st x \<Longrightarrow> x < length (prevRow st)"
  by (simp add: isolatedIn_def rowIsTrue_def)

lemma checkRow_rows [simp]:
  "prevRow (checkRow png1 y st) = prevRow st"
  "prevPrevRow (checkRow png1 y st) = prevPrevRow st"
  "currentRow (checkRow png1 y st) = currentRow st"
  "pixelIgnored (checkRow png1 y st) = pixelIgnored st"
  by (simp_all add: checkRow_def checkRowUpto_def [symmetric])

lemma checkRow_differences:
  "differences (checkRow png1 y st) = differences st - int (card {x. isolatedIn st x})"
proof -
  have "{x. x < length (prevRow st) \<and> isolatedIn st x} = {x. isolatedIn st x}"
    using isolatedIn_less by blast
  then show ?thesis
    by (simp add: checkRow_def checkRowUpto_def [symmetric] checkRowUpto_differences)
qed

lemma checkRow_pixels:
  "pixels (result (checkRow png1 y st)) (x, y') =
     (if y' = nat y \<and> isolatedIn st x then Some (getPixel png1 x (nat y), Some 100)
      else pixels (result st) (x, y'))"
  using isolatedIn_less [of st x]
  by (auto simp add: checkRow_def checkRowUpto_def [symmetric] checkRowUpto_pixels)

lemma flagged_bounds:
  "flagged L png1 png2 options x y \<Longrightarrow>
     x < min (width png1) (width png2) \<and> y < min (height png1) (height png2)"
  by (simp add: flagged_def)

lemma flaggedAt_int [simp]:
  "flaggedAt L png1 png2 options (int x) (int y) = flagged L png1 png2 options x y"
  by (simp add: flaggedAt_def)

lemma flaggedAt_neg [simp]: "j < 0 \<Longrightarrow> \<not> flaggedAt L png1 png2 options i j"
  by (simp add: flaggedAt_def)

lemma scanRow_currentRow_full:
  assumes "currentRow st = []"
  shows "rowIsTrue (currentRow (scanRow L png1 png2 options (max (width png1) (width png2)) y st)) i
           = flaggedAt L png1 png2 options i (int y)"
  using assms flagged_bounds [of L png1 png2 options "nat i" y]
  by (auto simp add: scanRow_currentRow flaggedAt_def)

section \<open>The row loop and its invariant\<close>

declare processRow.simps [simp del]

lemma processRow_fold:
  "y \<le> h \<Longrightarrow>
   processRow w h cb rd y s =
     fold (\<lambda>y s. rd y (h \<le> y) (fold (\<lambda>x. cb x y) [0..<w] s)) [y..<Suc h] s"
proof (induction "h - y" arbitrary: y s)
  case 0
  then have "y = h" by simp
  then show ?case
    by (subst processRow.simps) (simp add: Let_def)
next
  case (Suc n)
  then have less: "y < h" and n: "n = h - Suc y" and le: "Suc y \<le> h" by simp_all
  have upt: "[y..<Suc h] = y # [Suc y..<Suc h]"
    using less by (simp add: upt_conv_Cons)
  have "processRow w h cb rd y s =
          processRow w h cb rd (Suc y) (rd y False (fold (\<lambda>x. cb x y) [0..<w] s))"
    using less by (subst processRow.simps) (simp add: Let_def)
  also have "\<dots> = fold (\<lambda>y s. rd y (h \<le> y) (fold (\<lambda>x. cb x y) [0..<w] s)) [Suc y..<Suc h]
                     (rd y False (fold (\<lambda>x. cb x y) [0..<w] s))"
    by (rule Suc.hyps(1) [OF n le])
  also have "\<dots> = fold (\<lambda>y s. rd y (h \<le> y) (fold (\<lambda>x. cb x y) [0..<w] s)) [y..<Suc h] s"
    unfolding upt using less by (simp del: upt_Suc)
  finally show ?case .
qed

lemma checkRowUpto_noop: "(\<forall>x. \<not> isolatedIn st x) \<Longrightarrow> checkRowUpto png1 y n st = st"
  by (induction n) (simp_all add: checkRowUpto_Suc checkRowStep_eq)

lemma checkRow_noop: "(\<forall>x. \<not> isolatedIn st x) \<Longrightarrow> checkRow png1 y st = st"
  by (simp add: checkRow_def checkRowUpto_def [symmetric] checkRowUpto_noop)

lemma isolatedIn_flags:
  assumes "\<And>i. rowIsTrue (prevPrevRow st) i = flaggedAt L png1 png2 options i (j - 1)"
    and "\<And>i. rowIsTrue (prevRow st) i = flaggedAt L png1 png2 options i j"
    and "\<And>i. rowIsTrue (currentRow st) i = flaggedAt L png1 png2 options i (j + 1)"
  shows "isolatedIn st x \<longleftrightarrow>
           flaggedAt L png1 png2 options (int x) j \<and> \<not> flaggedNear L png1 png2 options (int x) j"
  by (simp add: isolatedIn_def hasNeighboorDiff_def flaggedNear_def assms)

lemma flagged_row_set:
  "{x. x < max (width png1) (width png2) \<and> flagged L png1 png2 options x y} =
   {x. flagged L png1 png2 options x y}"
  by (auto simp add: flagged_def)

lemma flaggedAt_beyond [simp]:
  "int (max (height png1) (height png2)) \<le> j \<Longrightarrow> \<not> flaggedAt L png1 png2 options i j"
  using flagged_bounds [of L png1 png2 options "nat i" "nat j"]
  by (auto simp add: flaggedAt_def)

lemma rowInv_initial:
  "rowInv L png1 png2 options 0 (initialState w h)"
  by (simp add: rowInv_def initialState_def png_empty_def)

lemma rowInv_step:
  assumes inv: "rowInv L png1 png2 options y st"
    and le: "y \<le> max (height png1) (height png2)"
  shows "rowInv L png1 png2 options (Suc y) (rowStep L png1 png2 options y st)"
proof -
  let ?W = "max (width png1) (width png2)"
  let ?H = "max (height png1) (height png2)"
  let ?st1 = "scanRow L png1 png2 options ?W y st"
  let ?st2 = "(checkRow png1 (int y - 1) ?st1)
                \<lparr>prevPrevRow := prevRow st, prevRow := currentRow ?st1, currentRow := []\<rparr>"
  from inv have cur: "currentRow st = []"
    and prev: "\<And>i. rowIsTrue (prevRow st) i = flaggedAt L png1 png2 options i (int y - 1)"
    and pprev: "\<And>i. rowIsTrue (prevPrevRow st) i = flaggedAt L png1 png2 options i (int y - 2)"
    and diff: "differences st =
       (\<Sum>y'<y. int (card {x. flagged L png1 png2 options x y'})) -
       (\<Sum>y'<y. int (isolatedCount L png1 png2 options (int y' - 1)))"
    and pix: "\<And>x y'. pixels (result st) (x, y') =
        (if x < ?W \<and> y' < y
         then Some (if Suc y' < y then finalPixel L png1 png2 options x y'
                    else scanPixel L png1 png2 options x y')
         else None)"
    and ign: "pixelIgnored st \<longleftrightarrow>
        (\<exists>x y'. x < ?W \<and> y' < y \<and> ignoredPixel L png1 png2 options x y')"
    by (simp_all add: rowInv_def)
  have cur1: "\<And>i. rowIsTrue (currentRow ?st1) i = flaggedAt L png1 png2 options i (int y)"
    by (rule scanRow_currentRow_full [OF cur])
  have iso: "\<And>x. isolatedIn ?st1 x \<longleftrightarrow>
      flaggedAt L png1 png2 options (int x) (int y - 1) \<and>
      \<not> flaggedNear L png1 png2 options (int x) (int y - 1)"
    by (rule isolatedIn_flags) (simp_all add: prev pprev cur1)
  have none: "\<not> rowIsTrue (currentRow ?st1) i" if "?H \<le> y" for i
    unfolding cur1 using that by simp
  have noop: "checkRow png1 (int y) ?st2 = ?st2" if "?H \<le> y"
    by (rule checkRow_noop) (simp add: isolatedIn_def none [OF that])
  have step: "rowStep L png1 png2 options y st = ?st2"
    using noop by (cases "?H \<le> y") (simp_all add: rowStep_def rowDoneCallback_def Let_def)
  have d2: "differences ?st2 =
       (\<Sum>y'<Suc y. int (card {x. flagged L png1 png2 options x y'})) -
       (\<Sum>y'<Suc y. int (isolatedCount L png1 png2 options (int y' - 1)))"
    by (simp add: checkRow_differences scanRow_differences diff iso isolatedCount_def
        flagged_row_set)
  have p2: "pixels (result ?st2) (x, y') =
        (if x < ?W \<and> y' < Suc y
         then Some (if Suc y' < Suc y then finalPixel L png1 png2 options x y'
                    else scanPixel L png1 png2 options x y')
         else None)" for x y'
  proof (cases "Suc y' = y")
    case True
    then have "int y - 1 = int y'" by auto
    then show ?thesis
      using True flagged_bounds [of L png1 png2 options x y']
      by (auto simp add: checkRow_pixels scanRow_pixels pix iso finalPixel_def
          hasFlaggedNeighbour_def)
  next
    case False
    have "\<not> (y' = nat (int y - 1) \<and> isolatedIn ?st1 x)"
    proof (cases "y = 0")
      case True
      have "\<not> isolatedIn ?st1 x"
        unfolding iso using True by simp
      then show ?thesis by simp
    next
      case nz: False
      then have "nat (int y - 1) = y - 1" by auto
      then show ?thesis using False nz by auto
    qed
    then show ?thesis
      using False by (auto simp add: checkRow_pixels scanRow_pixels pix)
  qed
  have i2: "pixelIgnored ?st2 \<longleftrightarrow>
        (\<exists>x y'. x < ?W \<and> y' < Suc y \<and> ignoredPixel L png1 png2 options x y')"
    by (auto simp add: scanRow_pixelIgnored ign less_Suc_eq)
  show ?thesis
    unfolding step rowInv_def
    using d2 p2 i2 by (simp add: cur1 prev)
qed

lemma buildDiffImageState_fold:
  "buildDiffImageState L png1 png2 options =
     fold (rowStep L png1 png2 options) [0..<Suc (max (height png1) (height png2))]
       (initialState (max (width png1) (width png2)) (max (height png1) (height png2)))"
proof -
  have "(\<lambda>y s. rowDoneCallback png1 y (max (height png1) (height png2) \<le> y)
           (fold (\<lambda>x. pixelCallback L png1 png2 options (min (width png1) (width png2))
                    (min (height png1) (height png2)) x y)
              [0..<max (width png1) (width png2)] s)) = rowStep L png1 png2 options"
    by (intro ext) (simp add: rowStep_def scanRow_def)
  then show ?thesis
    by (simp add: buildDiffImageState_def iterateRect_def processRow_fold del: upt_Suc)
qed

lemma rowInv_fold:
  "n \<le> Suc (max (height png1) (height png2)) \<Longrightarrow>
   rowInv L png1 png2 options n
     (fold (rowStep L png1 png2 options) [0..<n] (initialState w h))"
proof (induction n)
  case 0
  show ?case by (simp add: rowInv_initial)
next
  case (Suc n)
  then show ?case by (simp add: rowInv_step)
qed

lemma rowInv_final:
  "rowInv L png1 png2 options (Suc (max (height png1) (height png2)))
     (buildDiffImageState L png1 png2 options)"
  unfolding buildDiffImageState_fold by (rule rowInv_fold) simp

lemma rowInv_differences:
  "rowInv L png1 png2 options y st \<Longrightarrow>
   differences st =
       (\<Sum>y'<y. int (card {x. flagged L png1 png2 options x y'})) -
       (\<Sum>y'<y. int (isolatedCount L png1 png2 options (int y' - 1)))"
  unfolding rowInv_def by (elim conjE)

lemma rowInv_pixels:
  "rowInv L png1 png2 options y st \<Longrightarrow>
   pixels (result st) (x, y') =
        (if x < max (width png1) (width png2) \<and> y' < y
         then Some (if Suc y' < y then finalPixel L png1 png2 options x y'
                    else scanPixel L png1 png2 options x y')
         else None)"
  unfolding rowInv_def by (elim conjE allE [of _ x] allE [of _ y'])

lemma rowInv_pixelIgnored:
  "rowInv L png1 png2 options y st \<Longrightarrow>
   pixelIgnored st \<longleftrightarrow>
        (\<exists>x y'. x < max (width png1) (width png2) \<and> y' < y \<and> ignoredPixel L png1 png2 options x y')"
  unfolding rowInv_def by (elim conjE)

lemma buildDiffImage_endCallback:
  "buildDiffImage L png1 png2 options = endCallback (buildDiffImageState L png1 png2 options)"
  by (simp add: buildDiffImage_def buildDiffImageState_def iterateRect_def)

section \<open>The state at the end of the loop\<close>

lemma card_pairs_rows:
  fixes P :: "nat \<Rightarrow> nat \<Rightarrow> bool"
  assumes "\<And>x y. P x y \<Longrightarrow> x < w \<and> y < h"
  shows "int (card {(x, y). P x y}) = (\<Sum>y<h. int (card {x. P x y}))"
proof -
  have fin: "finite {x. P x y}" for y
  proof (rule finite_subset)
    show "{x. P x y} \<subseteq> {..<w}" using assms by auto
  qed simp
  have "{(x, y). P x y} = prod.swap ` (SIGMA y:{..<h}. {x. P x y})"
    using assms by (auto simp add: image_iff)
  then have "card {(x, y). P x y} = card (SIGMA y:{..<h}. {x. P x y})"
    by (simp add: card_image)
  also have "\<dots> = (\<Sum>y<h. card {x. P x y})"
    by (rule card_SigmaI) (simp_all add: fin)
  finally show ?thesis by simp
qed

lemma card_split_pred:
  assumes "finite {x. P x}"
  shows "int (card {x. P x}) - int (card {x. P x \<and> \<not> Q x}) = int (card {x. P x \<and> Q x})"
proof -
  have "card {x. P x \<and> Q x} + card {x. P x \<and> \<not> Q x} =
          card ({x. P x \<and> Q x} \<union> {x. P x \<and> \<not> Q x})"
    by (rule card_Un_disjoint [symmetric]) (use assms in auto)
  also have "{x. P x \<and> Q x} \<union> {x. P x \<and> \<not> Q x} = {x. P x}"
    by auto
  finally show ?thesis by simp
qed

lemma finite_flagged_row: "finite {x. flagged L png1 png2 options x y}"
proof (rule finite_subset)
  show "{x. flagged L png1 png2 options x y} \<subseteq> {..<min (width png1) (width png2)}"
    by (auto simp add: flagged_def)
qed simp

lemma buildDiffImageState_differences:
  "differences (buildDiffImageState L png1 png2 options) =
     int (card {(x, y). flagged L png1 png2 options x y \<and>
                        hasFlaggedNeighbour L png1 png2 options x y})"
proof -
  let ?H = "max (height png1) (height png2)"
  let ?fl = "flagged L png1 png2 options"
  let ?nb = "hasFlaggedNeighbour L png1 png2 options"
  have "differences (buildDiffImageState L png1 png2 options) =
       (\<Sum>y'<Suc ?H. int (card {x. ?fl x y'})) -
       (\<Sum>y'<Suc ?H. int (isolatedCount L png1 png2 options (int y' - 1)))"
    by (rule rowInv_differences [OF rowInv_final])
  also have "(\<Sum>y'<Suc ?H. int (card {x. ?fl x y'})) = (\<Sum>y'<?H. int (card {x. ?fl x y'}))"
  proof -
    have "{x. ?fl x ?H} = {}" by (auto simp add: flagged_def)
    then show ?thesis by simp
  qed
  also have "(\<Sum>y'<Suc ?H. int (isolatedCount L png1 png2 options (int y' - 1))) =
             (\<Sum>y'<?H. int (card {x. ?fl x y' \<and> \<not> ?nb x y'}))"
    by (simp add: sum.lessThan_Suc_shift isolatedCount_def hasFlaggedNeighbour_def
        del: sum.lessThan_Suc)
  also have "(\<Sum>y'<?H. int (card {x. ?fl x y'})) -
             (\<Sum>y'<?H. int (card {x. ?fl x y' \<and> \<not> ?nb x y'})) =
             (\<Sum>y'<?H. int (card {x. ?fl x y' \<and> ?nb x y'}))"
    by (simp add: sum_subtractf [symmetric] card_split_pred [OF finite_flagged_row])
  also have "\<dots> = int (card {(x, y). ?fl x y \<and> ?nb x y})"
    by (rule card_pairs_rows [symmetric, where w = "max (width png1) (width png2)"])
       (auto simp add: flagged_def)
  finally show ?thesis .
qed

lemma buildDiffImageState_pixels:
  "pixels (result (buildDiffImageState L png1 png2 options)) (x, y) =
     (if x < max (width png1) (width png2) \<and> y \<le> max (height png1) (height png2)
      then Some (if y < max (height png1) (height png2) then finalPixel L png1 png2 options x y
                 else (highlightColor options, None))
      else None)"
proof -
  have "scanPixel L png1 png2 options x (max (height png1) (height png2)) =
          (highlightColor options, None)"
    by (simp add: scanPixel_def min_le_iff_disj le_max_iff_disj)
  then show ?thesis
    using rowInv_pixels [OF rowInv_final, of L png1 png2 options x y]
    by (auto simp add: less_Suc_eq_le)
qed

lemma buildDiffImageState_pixelIgnored:
  "pixelIgnored (buildDiffImageState L png1 png2 options) \<longleftrightarrow>
     (\<exists>x y. ignoredPixel L png1 png2 options x y)"
proof -
  have "ignoredPixel L png1 png2 options x y \<Longrightarrow>
          x < max (width png1) (width png2) \<and> y < Suc (max (height png1) (height png2))" for x y
    by (auto simp add: ignoredPixel_def)
  then show ?thesis
    using rowInv_pixelIgnored [OF rowInv_final, of L png1 png2 options]
    by blast
qed

section \<open>Noise suppression\<close>

lemma buildDiffImageState_flagged_pixel:
  assumes "flagged L png1 png2 options x y"
  shows "pixels (result (buildDiffImageState L png1 png2 options)) (x, y) =
           Some (if hasFlaggedNeighbour L png1 png2 options x y
                 then (highlightColor options, None)
                 else (getPixel png1 x y, Some 100))"
proof -
  have "x < max (width png1) (width png2)" "y < max (height png1) (height png2)"
    using assms by (auto simp add: flagged_def)
  then show ?thesis
    using assms by (simp add: buildDiffImageState_pixels finalPixel_def scanPixel_def)
qed

lemma finite_flagged_pairs:
  "finite {(x, y). flagged L png1 png2 options x y \<and> Q x y}"
proof (rule finite_subset)
  show "{(x, y). flagged L png1 png2 options x y \<and> Q x y}
          \<subseteq> {..<min (width png1) (width png2)} \<times> {..<min (height png1) (height png2)}"
    by (auto simp add: flagged_def)
qed simp

lemma differences_as_retractions:
  "int (card {(x, y). flagged L png1 png2 options x y \<and> hasFlaggedNeighbour L png1 png2 options x y}) =
   int (card {(x, y). flagged L png1 png2 options x y}) -
   int (card {(x, y). flagged L png1 png2 options x y \<and> \<not> hasFlaggedNeighbour L png1 png2 options x y})"
proof -
  let ?A = "{(x, y). flagged L png1 png2 options x y \<and> hasFlaggedNeighbour L png1 png2 options x y}"
  let ?B = "{(x, y). flagged L png1 png2 options x y \<and> \<not> hasFlaggedNeighbour L png1 png2 options x y}"
  have "card (?A \<union> ?B) = card ?A + card ?B"
    by (rule card_Un_disjoint) (auto simp add: finite_flagged_pairs)
  moreover have "?A \<union> ?B = {(x, y). flagged L png1 png2 options x y}"
    by auto
  ultimately show ?thesis by simp
qed

lemma lonely_pixel_has_no_neighbour:
  assumes "\<forall>x' y'. flagged L png1 png2 options x' y' \<longrightarrow> x' = x \<and> y' = y"
  shows "\<not> hasFlaggedNeighbour L png1 png2 options x y"
proof -
  have "\<not> flaggedAt L png1 png2 options i j" if "i \<noteq> int x \<or> j \<noteq> int y" for i j
    using assms that by (auto simp add: flaggedAt_def)
  then show ?thesis
    by (simp add: hasFlaggedNeighbour_def flaggedNear_def)
qed

lemma lonely_pixel_differences:
  assumes "\<forall>x' y'. flagged L png1 png2 options x' y' \<longrightarrow> x' = x \<and> y' = y"
  shows "differences (buildDiffImageState L png1 png2 options) = 0"
proof -
  have "\<not> (flagged L png1 png2 options a b \<and> hasFlaggedNeighbour L png1 png2 options a b)" for a b
    using assms lonely_pixel_has_no_neighbour [OF assms] by blast
  then have none: "{(x, y). flagged L png1 png2 options x y \<and> hasFlaggedNeighbour L png1 png2 options x y} = {}"
    by auto
  show ?thesis
    unfolding buildDiffImageState_differences none by simp
qed

lemma block_neighbours:
  assumes "flagged L png1 png2 options x y" "flagged L png1 png2 options (Suc x) y"
  shows "hasFlaggedNeighbour L png1 png2 options x y"
    and "hasFlaggedNeighbour L png1 png2 options (Suc x) y"
proof -
  have "flaggedAt L png1 png2 options (int x + 1) (int y)"
    using assms(2) by (simp add: flaggedAt_def nat_add_distrib)
  then show "hasFlaggedNeighbour L png1 png2 options x y"
    by (simp add: hasFlaggedNeighbour_def flaggedNear_def)
  have "flaggedAt L png1 png2 options (int (Suc x) - 1) (int y)"
    using assms(1) by (simp add: flaggedAt_def)
  then show "hasFlaggedNeighbour L png1 png2 options (Suc x) y"
    by (simp only: hasFlaggedNeighbour_def flaggedNear_def) blast
qed

lemma block_differences:
  assumes "flagged L png1 png2 options x y" "flagged L png1 png2 options (Suc x) y"
  shows "2 \<le> differences (buildDiffImageState L png1 png2 options)"
proof -
  let ?A = "{(x, y). flagged L png1 png2 options x y \<and> hasFlaggedNeighbour L png1 png2 options x y}"
  have "{(x, y), (Suc x, y)} \<subseteq> ?A"
    using assms block_neighbours [OF assms] by auto
  then have "card {(x, y), (Suc x, y)} \<le> card ?A"
    by (rule card_mono [OF finite_flagged_pairs])
  then show ?thesis by (simp add: buildDiffImageState_differences)
qed

lemma flagged_spotted:
  "flagged libs0 (solid w h white) (spotted w h spots) strictOptions x y \<longleftrightarrow>
     x < w \<and> y < h \<and> (x, y) \<in> set spots"
  by (simp add: flagged_def solid_def spotted_def strictOptions_def areColorsSame_def
      white_def black_def)


text \<open>
  C2. When \<open>buildDiffImage\<close> calls back, whatever the sizes of the two rasters (so also
  when they are equal): the counter is the number of marked pixels minus the number of marked
  pixels without a marked neighbour among the 8 around them; a marked pixel holds the highlight
  colour if it has such a neighbour and otherwise its colour in the first raster, written with
  alpha 100. A marked pixel that is the only one gives a count of 0, reported as equal; two
  marked pixels side by side both keep the highlight colour and both count.
\<close>

theorem noise_suppression_retracts_isolated_pixels:
  "buildDiffImage L png1 png2 options =
     (result (buildDiffImageState L png1 png2 options),
      differences (buildDiffImageState L png1 png2 options) = 0,
      pixelIgnored (buildDiffImageState L png1 png2 options)) \<and>
   differences (buildDiffImageState L png1 png2 options) =
     int (card {(x, y). flagged L png1 png2 options x y}) -
     int (card {(x, y). flagged L png1 png2 options x y \<and>
                        \<not> hasFlaggedNeighbour L png1 png2 options x y}) \<and>
   (\<forall>x y. flagged L png1 png2 options x y \<longrightarrow>
      pixels (result (buildDiffImageState L png1 png2 options)) (x, y) =
        Some (if hasFlaggedNeighbour L png1 png2 options x y
              then (highlightColor options, None)
              else (getPixel png1 x y, Some 100))) \<and>
   (\<forall>x y. flagged L png1 png2 options x y \<and>
      (\<forall>x' y'. flagged L png1 png2 options x' y' \<longrightarrow> x' = x \<and> y' = y) \<longrightarrow>
      differences (buildDiffImageState L png1 png2 options) = 0 \<and>
      pixels (result (buildDiffImageState L png1 png2 options)) (x, y) =
        Some (getPixel png1 x y, Some 100)) \<and>
   (\<forall>x y. flagged L png1 png2 options x y \<and> flagged L png1 png2 options (Suc x) y \<longrightarrow>
      2 \<le> differences (buildDiffImageState L png1 png2 options) \<and>
      pixels (result (buildDiffImageState L png1 png2 options)) (x, y) =
        Some (highlightColor options, None) \<and>
      pixels (result (buildDiffImageState L png1 png2 options)) (Suc x, y) =
        Some (highlightColor options, None))"
proof (intro conjI allI impI)
  show "buildDiffImage L png1 png2 options =
     (result (buildDiffImageState L png1 png2 options),
      differences (buildDiffImageState L png1 png2 options) = 0,
      pixelIgnored (buildDiffImageState L png1 png2 options))"
    by (simp add: buildDiffImage_endCallback endCallback_def)
next
  show "differences (buildDiffImageState L png1 png2 options) =
     int (card {(x, y). flagged L png1 png2 options x y}) -
     int (card {(x, y). flagged L png1 png2 options x y \<and>
                        \<not> hasFlaggedNeighbour L png1 png2 options x y})"
    by (simp only: buildDiffImageState_differences differences_as_retractions)
next
  fix x y
  assume "flagged L png1 png2 options x y"
  then show "pixels (result (buildDiffImageState L png1 png2 options)) (x, y) =
        Some (if hasFlaggedNeighbour L png1 png2 options x y
              then (highlightColor options, None)
              else (getPixel png1 x y, Some 100))"
    by (rule buildDiffImageState_flagged_pixel)
next
  fix x y
  assume a: "flagged L png1 png2 options x y \<and>
      (\<forall>x' y'. flagged L png1 png2 options x' y' \<longrightarrow> x' = x \<and> y' = y)"
  then have only: "\<forall>x' y'. flagged L png1 png2 options x' y' \<longrightarrow> x' = x \<and> y' = y"
    by blast
  show "differences (buildDiffImageState L png1 png2 options) = 0"
    by (rule lonely_pixel_differences [OF only])
  from a show "pixels (result (buildDiffImageState L png1 png2 options)) (x, y) =
        Some (getPixel png1 x y, Some 100)"
    using lonely_pixel_has_no_neighbour [OF only]
    by (simp add: buildDiffImageState_flagged_pixel)
next
  fix x y
  assume a: "flagged L png1 png2 options x y \<and> flagged L png1 png2 options (Suc x) y"
  then show "2 \<le> differences (buildDiffImageState L png1 png2 options)"
    using block_differences by blast
  from a show "pixels (result (buildDiffImageState L png1 png2 options)) (x, y) =
        Some (highlightColor options, None)"
    by (simp add: buildDiffImageState_flagged_pixel block_neighbours)
  from a show "pixels (result (buildDiffImageState L png1 png2 options)) (Suc x, y) =
        Some (highlightColor options, None)"
    by (simp add: buildDiffImageState_flagged_pixel block_neighbours)
qed

theorem noise_suppression_retracts_isolated_pixels_witness:
  "differences (buildDiffImageState libs0 (solid 3 3 white) (spotted 3 3 [(1, 1)]) strictOptions) = 0 \<and>
   fst (snd (buildDiffImage libs0 (solid 3 3 white) (spotted 3 3 [(1, 1)]) strictOptions)) \<and>
   pixels (result (buildDiffImageState libs0 (solid 3 3 white) (spotted 3 3 [(1, 1)]) strictOptions)) (1, 1)
     = Some (white, Some 100) \<and>
   2 \<le> differences (buildDiffImageState libs0 (solid 3 3 white) (spotted 3 3 [(0, 1), (1, 1)])
          strictOptions) \<and>
   pixels (result (buildDiffImageState libs0 (solid 3 3 white) (spotted 3 3 [(0, 1), (1, 1)])
          strictOptions)) (0, 1) = Some (magenta, None) \<and>
   pixels (result (buildDiffImageState libs0 (solid 3 3 white) (spotted 3 3 [(0, 1), (1, 1)])
          strictOptions)) (1, 1) = Some (magenta, None)"
proof -
  let ?ref = "solid 3 3 white"
  let ?dot = "spotted 3 3 [(1, 1)]"
  let ?pair = "spotted 3 3 [(0, 1), (1, 1)]"
  note dot = noise_suppression_retracts_isolated_pixels [of libs0 ?ref ?dot strictOptions]
  note pair = noise_suppression_retracts_isolated_pixels [of libs0 ?ref ?pair strictOptions]
  have only: "flagged libs0 ?ref ?dot strictOptions 1 1 \<and>
      (\<forall>x' y'. flagged libs0 ?ref ?dot strictOptions x' y' \<longrightarrow> x' = 1 \<and> y' = 1)"
    by (simp add: flagged_spotted)
  have lonely: "differences (buildDiffImageState libs0 ?ref ?dot strictOptions) = 0 \<and>
      pixels (result (buildDiffImageState libs0 ?ref ?dot strictOptions)) (1, 1) =
        Some (getPixel ?ref 1 1, Some 100)"
    using dot [THEN conjunct2, THEN conjunct2, THEN conjunct2, THEN conjunct1, rule_format,
        of 1 1] only by blast
  have equal: "fst (snd (buildDiffImage libs0 ?ref ?dot strictOptions))"
    using dot [THEN conjunct1] lonely by simp
  have both: "flagged libs0 ?ref ?pair strictOptions 0 1 \<and>
      flagged libs0 ?ref ?pair strictOptions (Suc 0) 1"
    by (simp add: flagged_spotted)
  have block: "2 \<le> differences (buildDiffImageState libs0 ?ref ?pair strictOptions) \<and>
      pixels (result (buildDiffImageState libs0 ?ref ?pair strictOptions)) (0, 1) =
        Some (highlightColor strictOptions, None) \<and>
      pixels (result (buildDiffImageState libs0 ?ref ?pair strictOptions)) (Suc 0, 1) =
        Some (highlightColor strictOptions, None)"
    using pair [THEN conjunct2, THEN conjunct2, THEN conjunct2, THEN conjunct2, rule_format,
        of 0 1] both by blast
  show ?thesis
    using lonely equal block by (simp add: solid_def strictOptions_def)
qed

section \<open>The rows that are visited\<close>

lemma scanRow_dims [simp]:
  "imgWidth (result (scanRow L png1 png2 options n y st)) = imgWidth (result st)"
  "imgHeight (result (scanRow L png1 png2 options n y st)) = imgHeight (result st)"
  by (induction n) (simp_all add: scanRow_Suc pixelCallback_eq setPixel_def)

lemma checkRowUpto_dims [simp]:
  "imgWidth (result (checkRowUpto png1 y n st)) = imgWidth (result st)"
  "imgHeight (result (checkRowUpto png1 y n st)) = imgHeight (result st)"
  by (induction n) (simp_all add: checkRowUpto_Suc checkRowStep_eq setPixel_def)

lemma checkRow_dims [simp]:
  "imgWidth (result (checkRow png1 y st)) = imgWidth (result st)"
  "imgHeight (result (checkRow png1 y st)) = imgHeight (result st)"
  by (simp_all add: checkRow_def checkRowUpto_def [symmetric])

lemma rowStep_dims [simp]:
  "imgWidth (result (rowStep L png1 png2 options y st)) = imgWidth (result st)"
  "imgHeight (result (rowStep L png1 png2 options y st)) = imgHeight (result st)"
  by (simp_all add: rowStep_def rowDoneCallback_def Let_def)

lemma fold_rowStep_dims:
  "imgWidth (result (fold (rowStep L png1 png2 options) [0..<n] st)) = imgWidth (result st) \<and>
   imgHeight (result (fold (rowStep L png1 png2 options) [0..<n] st)) = imgHeight (result st)"
  by (induction n) simp_all

lemma buildDiffImageState_dims:
  "imgWidth (result (buildDiffImageState L png1 png2 options)) = max (width png1) (width png2)"
  "imgHeight (result (buildDiffImageState L png1 png2 options)) = max (height png1) (height png2)"
  unfolding buildDiffImageState_fold
  by (simp_all only: fold_rowStep_dims) (simp_all add: initialState_def png_empty_def)

lemma fold_snoc_log: "fold (\<lambda>x visited. visited @ [f x]) xs visited = visited @ map f xs"
  by (induction xs arbitrary: visited) simp_all

lemma fold_rows_log:
  "fold (\<lambda>y visited. visited @ g y) ys visited = visited @ concat (map g ys)"
  by (induction ys arbitrary: visited) simp_all

lemma iterateRect_fold:
  "iterateRect w h callback rowDone finish s =
     finish (fold (\<lambda>y s. rowDone y (h \<le> y) (fold (\<lambda>x. callback x y) [0..<w] s)) [0..<Suc h] s)"
  by (simp add: iterateRect_def processRow_fold del: upt_Suc)

lemma iterateRect_visits:
  "iterateRect w h (\<lambda>x y visited. visited @ [(x, y)]) (\<lambda>y isLastRow visited. visited)
     (\<lambda>visited. visited) [] = rasterCoords w (Suc h)"
  by (simp add: iterateRect_fold fold_snoc_log fold_rows_log rasterCoords_def del: upt_Suc)

lemma pixelCallback_last_row:
  "pixelCallback L png1 png2 options (min (width png1) (width png2))
       (min (height png1) (height png2)) x (max (height png1) (height png2)) st =
     st\<lparr>result := setPixel (result st) x (max (height png1) (height png2))
                     (highlightColor options) None\<rparr>"
  by (simp add: pixelCallback_def min_le_iff_disj le_max_iff_disj)

text \<open>
  C9. \<open>iterateRect\<close> runs its callback along the rows \<open>0, ..., h\<close>, that is \<open>h + 1\<close> rows
  and every \<open>(x, y)\<close> with \<open>x < w\<close> and \<open>y \<le> h\<close>. In \<open>buildDiffImage\<close> the raster has
  as many rows as the taller input, and the finished table holds a \<open>setPixel\<close> call at row
  \<open>y = h\<close> for every column: the highlight colour, written by the branch for cells outside
  the rasters, which changes nothing but the raster (not the counter, not the rows of marks).
\<close>

theorem iterateRect_runs_one_row_past_the_canvas:
  "iterateRect w h callback rowDone finish s =
     finish (fold (\<lambda>y s. rowDone y (h \<le> y) (fold (\<lambda>x. callback x y) [0..<w] s)) [0..<Suc h] s) \<and>
   iterateRect w h (\<lambda>x y visited. visited @ [(x, y)]) (\<lambda>y isLastRow visited. visited)
     (\<lambda>visited. visited) [] = rasterCoords w (Suc h) \<and>
   imgHeight (result (buildDiffImageState L png1 png2 options)) = max (height png1) (height png2) \<and>
   (\<forall>x < max (width png1) (width png2).
      pixels (result (buildDiffImageState L png1 png2 options))
        (x, max (height png1) (height png2)) = Some (highlightColor options, None)) \<and>
   pixelCallback L png1 png2 options (min (width png1) (width png2))
       (min (height png1) (height png2)) x (max (height png1) (height png2)) st =
     st\<lparr>result := setPixel (result st) x (max (height png1) (height png2))
                     (highlightColor options) None\<rparr>"
proof (intro conjI allI impI)
  show "iterateRect w h callback rowDone finish s =
     finish (fold (\<lambda>y s. rowDone y (h \<le> y) (fold (\<lambda>x. callback x y) [0..<w] s)) [0..<Suc h] s)"
    by (rule iterateRect_fold)
  show "iterateRect w h (\<lambda>x y visited. visited @ [(x, y)]) (\<lambda>y isLastRow visited. visited)
     (\<lambda>visited. visited) [] = rasterCoords w (Suc h)"
    by (rule iterateRect_visits)
  show "imgHeight (result (buildDiffImageState L png1 png2 options)) =
      max (height png1) (height png2)"
    by (rule buildDiffImageState_dims)
  show "pixels (result (buildDiffImageState L png1 png2 options))
        (x, max (height png1) (height png2)) = Some (highlightColor options, None)"
    if "x < max (width png1) (width png2)" for x
    using that by (simp add: buildDiffImageState_pixels)
  show "pixelCallback L png1 png2 options (min (width png1) (width png2))
       (min (height png1) (height png2)) x (max (height png1) (height png2)) st =
     st\<lparr>result := setPixel (result st) x (max (height png1) (height png2))
                     (highlightColor options) None\<rparr>"
    by (rule pixelCallback_last_row)
qed

theorem iterateRect_runs_one_row_past_the_canvas_witness:
  "iterateRect 2 1 (\<lambda>x y visited. visited @ [(x, y)]) (\<lambda>y isLastRow visited. visited)
     (\<lambda>visited. visited) [] = [(0, 0), (1, 0), (0, 1), (1, 1)] \<and>
   imgHeight (result (buildDiffImageState libs0 (solid 2 1 white) (solid 2 1 white) strictOptions)) = 1 \<and>
   pixels (result (buildDiffImageState libs0 (solid 2 1 white) (solid 2 1 white) strictOptions)) (0, 1)
     = Some (magenta, None) \<and>
   pixels (result (buildDiffImageState libs0 (solid 2 1 white) (solid 2 1 white) strictOptions)) (1, 1)
     = Some (magenta, None)"
proof -
  note inst = iterateRect_runs_one_row_past_the_canvas [of 2 1 _ _ _ _ libs0 "solid 2 1 white" "solid 2 1 white" strictOptions]
  have visits: "iterateRect 2 1 (\<lambda>x y visited. visited @ [(x, y)]) (\<lambda>y isLastRow visited. visited)
     (\<lambda>visited. visited) [] = rasterCoords 2 (Suc 1)"
    by (rule inst [THEN conjunct2, THEN conjunct1])
  have coords: "rasterCoords 2 (Suc 1) = [(0, 0), (1, 0), (0, 1), (1, 1)]"
    by code_simp
  have rows: "imgHeight (result (buildDiffImageState libs0 (solid 2 1 white) (solid 2 1 white)
      strictOptions)) = max (height (solid 2 1 white)) (height (solid 2 1 white))"
    by (rule inst [THEN conjunct2, THEN conjunct2, THEN conjunct1])
  have extra: "\<forall>x < max (width (solid 2 1 white)) (width (solid 2 1 white)).
      pixels (result (buildDiffImageState libs0 (solid 2 1 white) (solid 2 1 white) strictOptions))
        (x, max (height (solid 2 1 white)) (height (solid 2 1 white)))
      = Some (highlightColor strictOptions, None)"
    by (rule inst [THEN conjunct2, THEN conjunct2, THEN conjunct2, THEN conjunct1])
  show ?thesis
    using visits coords rows extra by (simp add: solid_def strictOptions_def)
qed


section \<open>Rasters of different sizes\<close>

lemma not_flagged_outside:
  "min (width png1) (width png2) \<le> x \<or> min (height png1) (height png2) \<le> y \<Longrightarrow>
   \<not> flagged L png1 png2 options x y"
  by (auto simp add: flagged_def)

lemma buildDiffImageState_outside_pixel:
  assumes "x < max (width png1) (width png2)" "y < max (height png1) (height png2)"
    and "min (width png1) (width png2) \<le> x \<or> min (height png1) (height png2) \<le> y"
  shows "pixels (result (buildDiffImageState L png1 png2 options)) (x, y) =
           Some (highlightColor options, None)"
  using assms not_flagged_outside [OF assms(3), of L options]
  by (auto simp add: buildDiffImageState_pixels finalPixel_def scanPixel_def)

lemma buildDiffImage_no_flagged:
  assumes "\<forall>x y. \<not> flagged L png1 png2 options x y"
  shows "buildDiffImage L png1 png2 options =
           (result (buildDiffImageState L png1 png2 options), True,
            pixelIgnored (buildDiffImageState L png1 png2 options))"
proof -
  have none: "{(x, y). flagged L png1 png2 options x y \<and> hasFlaggedNeighbour L png1 png2 options x y} = {}"
    using assms by auto
  have "differences (buildDiffImageState L png1 png2 options) = 0"
    unfolding buildDiffImageState_differences none by simp
  then show ?thesis
    by (simp add: buildDiffImage_endCallback endCallback_def)
qed

text \<open>
  C1. What \<open>buildDiffImage\<close> does where the two sizes differ: the raster has the larger
  width and the larger height, every cell of it outside the smaller bounds holds the highlight
  colour, and such a cell is not counted: when no pixel inside both rasters is marked, the
  callback receives \<open>equal = true\<close>, whatever the sizes.
\<close>

theorem size_mismatch_painted_but_not_counted:
  "imgWidth (result (buildDiffImageState L png1 png2 options)) = max (width png1) (width png2) \<and>
   imgHeight (result (buildDiffImageState L png1 png2 options)) = max (height png1) (height png2) \<and>
   (\<forall>x y. x < max (width png1) (width png2) \<and> y < max (height png1) (height png2) \<and>
          (min (width png1) (width png2) \<le> x \<or> min (height png1) (height png2) \<le> y) \<longrightarrow>
      pixels (result (buildDiffImageState L png1 png2 options)) (x, y) =
        Some (highlightColor options, None)) \<and>
   ((\<forall>x y. \<not> flagged L png1 png2 options x y) \<longrightarrow>
      buildDiffImage L png1 png2 options =
        (result (buildDiffImageState L png1 png2 options), True,
         pixelIgnored (buildDiffImageState L png1 png2 options)))"
  using buildDiffImageState_outside_pixel [of _ png1 png2 _ L options]
  by (simp add: buildDiffImageState_dims buildDiffImage_no_flagged)

theorem size_mismatch_painted_but_not_counted_witness:
  "width (solid 1 1 white) \<noteq> width (solid 2 1 white) \<and>
   fst (snd (buildDiffImage libs0 (solid 1 1 white) (solid 2 1 white) strictOptions)) \<and>
   pixels (fst (buildDiffImage libs0 (solid 1 1 white) (solid 2 1 white) strictOptions)) (1, 0) =
     Some (magenta, None) \<and>
   createDiff libs0 io0 (diffOptsFor ''white1x1.png'' ''white2x1.png'') =
     ([ReadPair ''white1x1.png'' ''white2x1.png''], Completed (Equal False))"
proof -
  note inst = size_mismatch_painted_but_not_counted [of libs0 "solid 1 1 white" "solid 2 1 white" strictOptions]
  have none: "\<forall>x y. \<not> flagged libs0 (solid 1 1 white) (solid 2 1 white) strictOptions x y"
    by (simp add: flagged_def solid_def strictOptions_def areColorsSame_def)
  have equal: "buildDiffImage libs0 (solid 1 1 white) (solid 2 1 white) strictOptions =
      (result (buildDiffImageState libs0 (solid 1 1 white) (solid 2 1 white) strictOptions), True,
       pixelIgnored (buildDiffImageState libs0 (solid 1 1 white) (solid 2 1 white) strictOptions))"
    using inst [THEN conjunct2, THEN conjunct2, THEN conjunct2] none by blast
  have painted: "pixels (result (buildDiffImageState libs0 (solid 1 1 white) (solid 2 1 white)
      strictOptions)) (1, 0) = Some (highlightColor strictOptions, None)"
    using inst [THEN conjunct2, THEN conjunct2, THEN conjunct1, rule_format, of 1 0]
    by (simp add: solid_def)
  have built: "createDiffOptions libs0 (diffOptsFor ''white1x1.png'' ''white2x1.png'') (JNum JND) =
      Inr strictOptions"
    by (simp add: createDiffOptions_def parseColorString_def libs0_def diffOptsFor_def
        strictOptions_def magenta_def)
  have read: "readPair io0 ''white1x1.png'' ''white2x1.png'' =
      Inr (solid 1 1 white, solid 2 1 white)"
    by (simp add: io0_def files_def)
  have ignored: "\<not> pixelIgnored (buildDiffImageState libs0 (solid 1 1 white) (solid 2 1 white)
      strictOptions)"
    by (simp add: buildDiffImageState_pixelIgnored ignoredPixel_def strictOptions_def)
  have started: "start libs0 io0 (diffOptsFor ''white1x1.png'' ''white2x1.png'')
      (solid 1 1 white, solid 2 1 white) strictOptions = ([], Completed (Equal False))"
    using equal ignored by (simp add: start_def)
  have promise: "createDiff libs0 io0 (diffOptsFor ''white1x1.png'' ''white2x1.png'') =
     ([ReadPair ''white1x1.png'' ''white2x1.png''], Completed (Equal False))"
    using built read started
    by (simp add: createDiff_def getToleranceFromOpts_def diffOptsFor_def)
  show ?thesis
    using equal painted promise by (simp add: solid_def strictOptions_def)
qed

section \<open>Conflicting and negative options, the perceptual comparator\<close>

lemma looksSame_throws:
  "tolerance given = Some t \<Longrightarrow> truthy (strict given) \<Longrightarrow>
   looksSame L io r i (WithOpts given) =
     \<lparr>events = [], outcome = Threw strictToleranceError, optsAfter = given\<rparr>"
  by (simp add: looksSame_def prepareOpts_eq)

lemma getDiffArea_throws:
  "tolerance given = Some t \<Longrightarrow> truthy (strict given) \<Longrightarrow>
   exports_getDiffArea L io r i (WithOpts given) =
     \<lparr>events = [], outcome = Threw strictToleranceError, optsAfter = given\<rparr>"
  by (simp add: exports_getDiffArea_def prepareOpts_eq)

lemma createDiff_throws:
  "tolerance dopts = Some t \<Longrightarrow> truthy (strict dopts) \<Longrightarrow>
   createDiff L io dopts = ([], Threw strictToleranceError)"
  by (simp add: createDiff_def getToleranceFromOpts_def)

lemma colors_eq:
  "colors L c1 c2 (Some given) =
     Completed (fst (doColorsLookSame L
        (if getTolerance given = JUndefined then JNum JND else getTolerance given)
        \<lparr>color1 = c1, color2 = c2, position = None\<rparr>))"
  by (simp add: colors_def Let_def makeCIEDE2000Comparator_def getTolerance_def)

lemma colors_never_throws: "colors L c1 c2 given \<noteq> Threw e"
  by (simp add: colors_def Let_def)

lemma looksSame_no_throw:
  "\<not> (tolerance given \<noteq> None \<and> truthy (strict given)) \<Longrightarrow>
   outcome (looksSame L io r i (WithOpts given)) \<noteq> Threw e"
  by (auto simp add: looksSame_def prepareOpts_eq Let_def split: sum.splits prod.splits)

lemma getDiffArea_no_throw:
  "\<not> (tolerance given \<noteq> None \<and> truthy (strict given)) \<Longrightarrow>
   outcome (exports_getDiffArea L io r i (WithOpts given)) \<noteq> Threw e"
  by (auto simp add: exports_getDiffArea_def prepareOpts_eq Let_def split: sum.splits prod.splits)

lemma start_no_throw: "start L io dopts pair dd = (evs, res) \<Longrightarrow> res \<noteq> Threw e"
  by (auto simp add: start_def split: prod.splits option.splits if_splits)

lemma createDiff_no_throw:
  "\<not> (tolerance dopts \<noteq> None \<and> truthy (strict dopts)) \<Longrightarrow>
   snd (createDiff L io dopts) \<noteq> Threw e"
  by (auto simp add: createDiff_def getToleranceFromOpts_def Let_def
      split: sum.splits prod.splits option.splits dest: start_no_throw)

lemma areColorsSame_iff: "areColorsSame d \<longleftrightarrow> color1 d = color2 d"
  by (auto simp add: areColorsSame_def intro: color.equality)

lemma doColorsLookSame_iff:
  "fst (doColorsLookSame L (JNum t) d) \<longleftrightarrow>
     color1 d = color2 d \<or> labDiff L (rgb_to_lab L (color1 d)) (rgb_to_lab L (color2 d)) < t"
  by (simp add: doColorsLookSame_def Let_def areColorsSame_iff)

lemma doColorsLookSame_conversions:
  "snd (doColorsLookSame L tol d) = (if color1 d = color2 d then 0 else 2)"
  by (simp add: doColorsLookSame_def Let_def areColorsSame_iff)

text \<open>
  C3, as the code has it. \<open>looksSame\<close>, \<open>getDiffArea\<close> and \<open>createDiff\<close> throw the
  TypeError when the options hold a tolerance key and a truthy \<open>strict\<close>; they throw before
  anything else happens: no image is read, no pixel compared, the options are untouched.
  \<open>colors\<close> never reads \<open>strict\<close>: it returns the verdict of the perceptual comparator
  for the tolerance it is given (2.3 when that is \<open>undefined\<close>).
\<close>

theorem strict_with_tolerance_throws_except_colors:
  "(tolerance given \<noteq> None \<and> truthy (strict given) \<longrightarrow>
      looksSame L io r i (WithOpts given) =
        \<lparr>events = [], outcome = Threw strictToleranceError, optsAfter = given\<rparr> \<and>
      exports_getDiffArea L io r i (WithOpts given) =
        \<lparr>events = [], outcome = Threw strictToleranceError, optsAfter = given\<rparr>) \<and>
   (tolerance dopts \<noteq> None \<and> truthy (strict dopts) \<longrightarrow>
      createDiff L io dopts = ([], Threw strictToleranceError)) \<and>
   colors L c1 c2 (Some given) =
     Completed (fst (doColorsLookSame L
        (if getTolerance given = JUndefined then JNum JND else getTolerance given)
        \<lparr>color1 = c1, color2 = c2, position = None\<rparr>))"
  by (auto simp add: looksSame_throws getDiffArea_throws createDiff_throws colors_eq)

text \<open>
  \<open>colors\<close> with \<open>strict: true\<close> and \<open>tolerance: 5\<close> does not throw: it takes two
  colours that differ for the same, as the perceptual comparator does.
\<close>

theorem colors_ignores_strict:
  "truthy (strict strictAndTolerance) \<and> tolerance strictAndTolerance = Some (JNum 5) \<and>
   \<not> areColorsSame \<lparr>color1 = white, color2 = offWhite, position = None\<rparr> \<and>
   colors libs0 white offWhite (Some strictAndTolerance) = Completed True"
  by (simp add: colors_eq strictAndTolerance_def emptyOpts_def getTolerance_def
      doColorsLookSame_def areColorsSame_def white_def offWhite_def libs0_def)

theorem strict_with_tolerance_throws_except_colors_witness:
  "looksSame libs0 io0 ''white3x3.png'' ''dot3x3.png'' (WithOpts strictAndTolerance) =
     \<lparr>events = [], outcome = Threw strictToleranceError, optsAfter = strictAndTolerance\<rparr> \<and>
   exports_getDiffArea libs0 io0 ''white3x3.png'' ''dot3x3.png'' (WithOpts strictAndTolerance) =
     \<lparr>events = [], outcome = Threw strictToleranceError, optsAfter = strictAndTolerance\<rparr> \<and>
   createDiff libs0 io0 ((diffOptsFor ''white3x3.png'' ''dot3x3.png'')\<lparr>tolerance := Some (JNum 5)\<rparr>) =
     ([], Threw strictToleranceError)"
  using strict_with_tolerance_throws_except_colors [of strictAndTolerance libs0 io0 "''white3x3.png''" "''dot3x3.png''"
      "(diffOptsFor ''white3x3.png'' ''dot3x3.png'')\<lparr>tolerance := Some (JNum 5)\<rparr>"]
  by (simp add: strictAndTolerance_def emptyOpts_def diffOptsFor_def)

lemma negative_tolerance_exact:
  assumes "t < 0" "0 \<le> labDiff L (rgb_to_lab L (color1 d)) (rgb_to_lab L (color2 d))"
  shows "compare L (makeCIEDE2000Comparator (JNum t)) d = areColorsSame d"
  using assms by (simp add: makeCIEDE2000Comparator_def doColorsLookSame_def Let_def)

text \<open>
  C4, as the code has it. A negative tolerance is not an error: \<open>getToleranceFromOpts\<close>
  returns it as it is, \<open>prepareOpts\<close> keeps it, none of the four operations throws, and the
  perceptual comparator built with it accepts exactly the equal colours, a distance being
  at least 0.
\<close>

theorem negative_tolerance_is_accepted:
  "t < 0 \<and> tolerance given = Some (JNum t) \<and> \<not> truthy (strict given) \<and>
   tolerance dopts = Some (JNum t) \<and> \<not> truthy (strict dopts) \<longrightarrow>
     getToleranceFromOpts given = Inr (JNum t) \<and>
     prepareOpts given = Inr (given\<lparr>ignoreAntialiasing :=
        (if ignoreAntialiasing given = JUndefined then JBool True else ignoreAntialiasing given)\<rparr>) \<and>
     outcome (looksSame L io r i (WithOpts given)) \<noteq> Threw e \<and>
     outcome (exports_getDiffArea L io r i (WithOpts given)) \<noteq> Threw e \<and>
     snd (createDiff L io dopts) \<noteq> Threw e \<and>
     colors L c1 c2 (Some given) \<noteq> Threw e \<and>
     (0 \<le> labDiff L (rgb_to_lab L (color1 d)) (rgb_to_lab L (color2 d)) \<longrightarrow>
        compare L (makeCIEDE2000Comparator (JNum t)) d = areColorsSame d)"
proof (intro impI, elim conjE)
  assume neg: "t < 0" and tol: "tolerance given = Some (JNum t)" and ns: "\<not> truthy (strict given)"
    and dtol: "tolerance dopts = Some (JNum t)" and dns: "\<not> truthy (strict dopts)"
  have "given\<lparr>tolerance := Some (JNum t)\<rparr> = given"
    using tol by simp
  then have prep: "prepareOpts given = Inr (given\<lparr>ignoreAntialiasing :=
        (if ignoreAntialiasing given = JUndefined then JBool True else ignoreAntialiasing given)\<rparr>)"
    using tol ns by (simp add: prepareOpts_eq)
  show "getToleranceFromOpts given = Inr (JNum t) \<and>
     prepareOpts given = Inr (given\<lparr>ignoreAntialiasing :=
        (if ignoreAntialiasing given = JUndefined then JBool True else ignoreAntialiasing given)\<rparr>) \<and>
     outcome (looksSame L io r i (WithOpts given)) \<noteq> Threw e \<and>
     outcome (exports_getDiffArea L io r i (WithOpts given)) \<noteq> Threw e \<and>
     snd (createDiff L io dopts) \<noteq> Threw e \<and>
     colors L c1 c2 (Some given) \<noteq> Threw e \<and>
     (0 \<le> labDiff L (rgb_to_lab L (color1 d)) (rgb_to_lab L (color2 d)) \<longrightarrow>
        compare L (makeCIEDE2000Comparator (JNum t)) d = areColorsSame d)"
    using tol ns dns prep neg
    by (simp add: getToleranceFromOpts_def looksSame_no_throw getDiffArea_no_throw
        createDiff_no_throw colors_never_throws negative_tolerance_exact)
qed

theorem negative_tolerance_is_accepted_witness:
  "getToleranceFromOpts negativeTolerance = Inr (JNum (- 1)) \<and>
   outcome (looksSame libs0 io0 ''white3x3.png'' ''dot3x3.png'' (WithOpts negativeTolerance))
     \<noteq> Threw strictToleranceError \<and>
   outcome (exports_getDiffArea libs0 io0 ''white3x3.png'' ''dot3x3.png''
     (WithOpts negativeTolerance)) \<noteq> Threw strictToleranceError \<and>
   snd (createDiff libs0 io0 ((diffOptsFor ''white3x3.png'' ''dot3x3.png'')
     \<lparr>tolerance := Some (JNum (- 1)), strict := JUndefined\<rparr>)) \<noteq> Threw strictToleranceError \<and>
   colors libs0 white offWhite (Some negativeTolerance) \<noteq> Threw strictToleranceError \<and>
   \<not> compare libs0 (makeCIEDE2000Comparator (JNum (- 1)))
       \<lparr>color1 = white, color2 = offWhite, position = None\<rparr>"
  using negative_tolerance_is_accepted [of "- 1" negativeTolerance
      "(diffOptsFor ''white3x3.png'' ''dot3x3.png'')
         \<lparr>tolerance := Some (JNum (- 1)), strict := JUndefined\<rparr>"
      libs0 io0 "''white3x3.png''" "''dot3x3.png''" strictToleranceError white offWhite
      "\<lparr>color1 = white, color2 = offWhite, position = None\<rparr>"]
  by (simp add: negativeTolerance_def emptyOpts_def diffOptsFor_def libs0_def areColorsSame_def
      white_def offWhite_def)

text \<open>
  \<open>looksSame\<close> with \<open>tolerance: -1\<close> reads the images, compares the pixel and reports
  equality.
\<close>

theorem negative_tolerance_scans_without_error:
  "tolerance negativeTolerance = Some (JNum (- 1)) \<and>
   getToleranceFromOpts negativeTolerance = Inr (JNum (- 1)) \<and>
   looksSame libs0 io0 ''white1x1.png'' ''white1x1.png'' (WithOpts negativeTolerance) =
     \<lparr>events = [ReadPair ''white1x1.png'' ''white1x1.png'', Compare 0 0],
      outcome = Completed True,
      optsAfter = negativeTolerance\<lparr>ignoreAntialiasing := JBool True\<rparr>\<rparr>"
  by (simp add: negativeTolerance_def emptyOpts_def getToleranceFromOpts_def looksSame_def
      prepareOpts_eq io0_def files_def solid_def getDiffPixelsCoords_def rasterCoords_def
      createComparator_def makeCIEDE2000Comparator_def makeAntialiasingComparator_def
      getTolerance_def libs0_def doColorsLookSame_def areColorsSame_def)

text \<open>
  C8. The perceptual comparator for the tolerance \<open>t\<close> answers true iff the two colours are
  equal or their distance, as \<open>color-diff\<close> computes it on the Lab values, is below \<open>t\<close>;
  it converts to Lab only when the colours differ (twice, then). So for two different colours
  it answers true for every tolerance above their distance and false for every one below.
\<close>

theorem perceptual_comparator_threshold:
  "(fst (doColorsLookSame L (JNum t) d) \<longleftrightarrow>
      color1 d = color2 d \<or> labDiff L (rgb_to_lab L (color1 d)) (rgb_to_lab L (color2 d)) < t) \<and>
   snd (doColorsLookSame L (JNum t) d) = (if color1 d = color2 d then 0 else 2) \<and>
   compare L (makeCIEDE2000Comparator (JNum t)) d = fst (doColorsLookSame L (JNum t) d) \<and>
   (color1 d \<noteq> color2 d \<and> labDiff L (rgb_to_lab L (color1 d)) (rgb_to_lab L (color2 d)) < t \<longrightarrow>
      compare L (makeCIEDE2000Comparator (JNum t)) d) \<and>
   (color1 d \<noteq> color2 d \<and> t < labDiff L (rgb_to_lab L (color1 d)) (rgb_to_lab L (color2 d)) \<longrightarrow>
      \<not> compare L (makeCIEDE2000Comparator (JNum t)) d)"
  by (auto simp add: doColorsLookSame_iff doColorsLookSame_conversions makeCIEDE2000Comparator_def)

theorem perceptual_comparator_threshold_witness:
  "labDiff libs0 (rgb_to_lab libs0 white) (rgb_to_lab libs0 offWhite) = 1 \<and>
   compare libs0 (makeCIEDE2000Comparator (JNum 2)) \<lparr>color1 = white, color2 = offWhite, position = None\<rparr> \<and>
   \<not> compare libs0 (makeCIEDE2000Comparator (JNum (1/2))) \<lparr>color1 = white, color2 = offWhite, position = None\<rparr> \<and>
   snd (doColorsLookSame libs0 (JNum 2) \<lparr>color1 = white, color2 = offWhite, position = None\<rparr>) = 2 \<and>
   snd (doColorsLookSame libs0 (JNum 2) \<lparr>color1 = white, color2 = white, position = None\<rparr>) = 0"
  using perceptual_comparator_threshold [of libs0 2 "\<lparr>color1 = white, color2 = offWhite, position = None\<rparr>"]
    perceptual_comparator_threshold [of libs0 "1/2" "\<lparr>color1 = white, color2 = offWhite, position = None\<rparr>"]
    perceptual_comparator_threshold [of libs0 2 "\<lparr>color1 = white, color2 = white, position = None\<rparr>"]
  by (simp add: libs0_def white_def offWhite_def)

section \<open>The raster scan\<close>

lemma scanPixels_full:
  "scanPixels p png1 png2 False cs =
     (map (\<lambda>c. (int (fst c), int (snd c))) (filter (\<lambda>c. \<not> accepts p png1 png2 c) cs),
      map (\<lambda>c. Compare (fst c) (snd c)) cs)"
proof (induction cs)
  case Nil
  show ?case by simp
next
  case (Cons c cs)
  obtain x y where c: "c = (x, y)" by (cases c)
  show ?case using Cons by (simp add: c accepts_def)
qed

lemma scanPixels_stop:
  "scanPixels p png1 png2 True cs =
     (map (\<lambda>c. (int (fst c), int (snd c))) (take 1 (filter (\<lambda>c. \<not> accepts p png1 png2 c) cs)),
      map (\<lambda>c. Compare (fst c) (snd c)) (take (Suc (length (takeWhile (accepts p png1 png2) cs))) cs))"
proof (induction cs)
  case Nil
  show ?case by simp
next
  case (Cons c cs)
  obtain x y where c: "c = (x, y)" by (cases c)
  show ?case using Cons by (simp add: c accepts_def)
qed

lemma set_rasterCoords: "set (rasterCoords w h) = {(x, y). x < w \<and> y < h}"
  by (auto simp add: rasterCoords_def)

lemma differingCoords_scan:
  "set (fst (getDiffPixelsCoords L png1 png2 cmp False)) = differingCoords L cmp png1 png2"
  by (auto simp add: getDiffPixelsCoords_def scanPixels_full set_rasterCoords differingCoords_def
      image_iff)

lemma scan_full_empty:
  "fst (getDiffPixelsCoords L png1 png2 cmp False) = [] \<longleftrightarrow> differingCoords L cmp png1 png2 = {}"
  using differingCoords_scan [of L png1 png2 cmp] by (metis set_empty)

lemma scan_stop_empty:
  "fst (getDiffPixelsCoords L png1 png2 cmp True) = [] \<longleftrightarrow>
     (\<forall>x < min (width png1) (width png2). \<forall>y < min (height png1) (height png2).
        accepts (compare L cmp) png1 png2 (x, y))"
proof -
  let ?cs = "rasterCoords (min (width png1) (width png2)) (min (height png1) (height png2))"
  have "fst (getDiffPixelsCoords L png1 png2 cmp True) = [] \<longleftrightarrow>
          filter (\<lambda>c. \<not> accepts (compare L cmp) png1 png2 c) ?cs = []"
    by (simp add: getDiffPixelsCoords_def scanPixels_stop)
  also have "\<dots> \<longleftrightarrow> (\<forall>c \<in> set ?cs. accepts (compare L cmp) png1 png2 c)"
    by (simp add: filter_empty_conv)
  also have "\<dots> \<longleftrightarrow> (\<forall>x < min (width png1) (width png2). \<forall>y < min (height png1) (height png2).
        accepts (compare L cmp) png1 png2 (x, y))"
    by (auto simp add: set_rasterCoords)
  finally show ?thesis .
qed

lemma math_min_Min: "vs \<noteq> [] \<Longrightarrow> math_min vs = Some (Min (set vs))"
proof (cases vs)
  case Nil
  assume "vs \<noteq> []"
  with Nil show ?thesis by simp
next
  case (Cons v rest)
  have "fold min rest v = Min (set (v # rest))"
    by (rule Min.set_eq_fold [symmetric])
  then show ?thesis using Cons by simp
qed

lemma math_max_Max: "vs \<noteq> [] \<Longrightarrow> math_max vs = Some (Max (set vs))"
proof (cases vs)
  case Nil
  assume "vs \<noteq> []"
  with Nil show ?thesis by simp
next
  case (Cons v rest)
  have "fold max rest v = Max (set (v # rest))"
    by (rule Max.set_eq_fold [symmetric])
  then show ?thesis using Cons by simp
qed

lemma distinct_rasterCoords: "distinct (rasterCoords w h)"
proof (induction h)
  case 0
  show ?case by (simp add: rasterCoords_def)
next
  case (Suc h)
  have split: "rasterCoords w (Suc h) = rasterCoords w h @ map (\<lambda>x. (x, h)) [0..<w]"
    by (simp add: rasterCoords_def)
  have row: "distinct (map (\<lambda>x. (x, h)) [0..<w])"
    by (simp add: distinct_map inj_on_def)
  have apart: "set (rasterCoords w h) \<inter> set (map (\<lambda>x. (x, h)) [0..<w]) = {}"
    by (auto simp add: set_rasterCoords)
  show ?case
    unfolding split using Suc row apart by simp
qed

lemma scan_full_length:
  "length (fst (getDiffPixelsCoords L png1 png2 cmp False)) = card (differingCoords L cmp png1 png2)"
proof -
  let ?res = "fst (getDiffPixelsCoords L png1 png2 cmp False)"
  have "inj (\<lambda>c :: nat \<times> nat. (int (fst c), int (snd c)))"
    by (auto simp add: inj_on_def prod_eq_iff)
  then have "distinct ?res"
    by (simp add: getDiffPixelsCoords_def scanPixels_full distinct_map distinct_rasterCoords
        inj_on_def)
  then have "card (set ?res) = length ?res"
    by (rule distinct_card)
  then show ?thesis
    by (simp add: differingCoords_scan)
qed

lemma scan_full_calls:
  "snd (getDiffPixelsCoords L png1 png2 cmp False) =
     map (\<lambda>c. Compare (fst c) (snd c))
       (rasterCoords (min (width png1) (width png2)) (min (height png1) (height png2)))"
  by (simp add: getDiffPixelsCoords_def scanPixels_full)

section \<open>The bounding rectangle\<close>

lemma getDiffArea_eq:
  "getDiffArea L cs =
     (if cs = [] then Inr InfiniteArea
      else if length cs \<le> maxArguments L then Inr (boundingBox (set cs))
      else Inl stackError)"
proof (cases "cs = []")
  case True
  then show ?thesis by (simp add: getDiffArea_def math_apply_def)
next
  case False
  then have "map fst cs \<noteq> []" "map snd cs \<noteq> []" by simp_all
  then have "math_min (map fst cs) = Some (Min (fst ` set cs))"
    "math_max (map fst cs) = Some (Max (fst ` set cs))"
    "math_min (map snd cs) = Some (Min (snd ` set cs))"
    "math_max (map snd cs) = Some (Max (snd ` set cs))"
    by (simp_all add: math_min_Min math_max_Max)
  then show ?thesis
    using False by (simp add: getDiffArea_def math_apply_def Let_def boundingBox_def)
qed

lemma boundingBox_covers:
  assumes "finite D" "(x, y) \<in> D"
  shows "areaLeft (boundingBox D) \<le> x \<and> x < areaLeft (boundingBox D) + areaWidth (boundingBox D) \<and>
         areaTop (boundingBox D) \<le> y \<and> y < areaTop (boundingBox D) + areaHeight (boundingBox D)"
proof -
  have "x \<in> fst ` D" "y \<in> snd ` D" using assms(2) by force+
  then have "Min (fst ` D) \<le> x" "x \<le> Max (fst ` D)" "Min (snd ` D) \<le> y" "y \<le> Max (snd ` D)"
    using assms(1) by simp_all
  then show ?thesis by (simp add: boundingBox_def)
qed

lemma boundingBox_touches:
  assumes "finite D" "D \<noteq> {}"
  shows "areaLeft (boundingBox D) \<in> fst ` D \<and>
         areaLeft (boundingBox D) + areaWidth (boundingBox D) - 1 \<in> fst ` D \<and>
         areaTop (boundingBox D) \<in> snd ` D \<and>
         areaTop (boundingBox D) + areaHeight (boundingBox D) - 1 \<in> snd ` D"
proof -
  have "finite (fst ` D)" "fst ` D \<noteq> {}" "finite (snd ` D)" "snd ` D \<noteq> {}"
    using assms by simp_all
  then have "Min (fst ` D) \<in> fst ` D" "Max (fst ` D) \<in> fst ` D"
    "Min (snd ` D) \<in> snd ` D" "Max (snd ` D) \<in> snd ` D"
    by simp_all
  then show ?thesis by (simp add: boundingBox_def)
qed

lemma looksSame_eq:
  assumes "prepareOpts given = Inr opts'" "readPair io r i = Inr (first, second)"
  shows "looksSame L io r i (WithOpts given) =
     (if width first \<noteq> width second \<or> height first \<noteq> height second
      then \<lparr>events = [ReadPair r i], outcome = Completed False, optsAfter = opts'\<rparr>
      else \<lparr>events = ReadPair r i #
               snd (getDiffPixelsCoords L first second (createComparator first second opts') True),
             outcome = Completed
               (fst (getDiffPixelsCoords L first second (createComparator first second opts') True) = []),
             optsAfter = opts'\<rparr>)"
  using assms by (simp add: looksSame_def split: prod.splits)

lemma exports_getDiffArea_eq:
  assumes "prepareOpts given = Inr opts'" "readPair io r i = Inr (first, second)"
  shows "exports_getDiffArea L io r i (WithOpts given) =
     (if width first \<noteq> width second \<or> height first \<noteq> height second
      then \<lparr>events = [ReadPair r i],
             outcome = Completed (Some (DiffArea 0 0 (int (max (width first) (width second)))
                                          (int (max (height first) (height second))))),
             optsAfter = opts'\<rparr>
      else \<lparr>events = ReadPair r i #
               snd (getDiffPixelsCoords L first second (createComparator first second opts') False),
             outcome =
               (if fst (getDiffPixelsCoords L first second (createComparator first second opts') False) = []
                then Completed None
                else case getDiffArea L (fst (getDiffPixelsCoords L first second
                                                (createComparator first second opts') False)) of
                       Inl e \<Rightarrow> Uncaught e
                     | Inr area \<Rightarrow> Completed (Some area)),
             optsAfter = opts'\<rparr>)"
  using assms by (simp add: exports_getDiffArea_def split: prod.splits)

lemma exports_getDiffArea_outcome:
  assumes "prepareOpts given = Inr opts'" "readPair io r i = Inr (first, second)"
    and "width first = width second" "height first = height second"
  shows "outcome (exports_getDiffArea L io r i (WithOpts given)) =
     (if differingCoords L (createComparator first second opts') first second = {}
      then Completed None
      else if card (differingCoords L (createComparator first second opts') first second)
                \<le> maxArguments L
      then Completed (Some (boundingBox
             (differingCoords L (createComparator first second opts') first second)))
      else Uncaught stackError)"
proof -
  let ?cmp = "createComparator first second opts'"
  let ?res = "fst (getDiffPixelsCoords L first second ?cmp False)"
  have out: "outcome (exports_getDiffArea L io r i (WithOpts given)) =
      (if ?res = [] then Completed None
       else case getDiffArea L ?res of Inl e \<Rightarrow> Uncaught e | Inr area \<Rightarrow> Completed (Some area))"
    using assms(3,4) by (simp add: exports_getDiffArea_eq [OF assms(1,2)])
  show ?thesis
  proof (cases "?res = []")
    case True
    then show ?thesis
      using scan_full_empty [of L first second ?cmp] by (simp add: out)
  next
    case False
    then have "differingCoords L ?cmp first second \<noteq> {}"
      using scan_full_empty [of L first second ?cmp] by simp
    then show ?thesis
      using False
      by (simp add: out getDiffArea_eq scan_full_length differingCoords_scan)
  qed
qed

section \<open>Example rasters\<close>

lemma solid_simps [simp]:
  "width (solid w h c) = w" "height (solid w h c) = h" "getPixel (solid w h c) x y = c"
  by (simp_all add: solid_def)

lemma spotted_simps [simp]:
  "width (spotted w h spots) = w" "height (spotted w h spots) = h"
  "getPixel (spotted w h spots) x y = (if (x, y) \<in> set spots then black else white)"
  by (simp_all add: spotted_def)

lemma white_not_black [simp]: "white \<noteq> black" "R white \<noteq> R black"
  by (simp_all add: white_def black_def)

lemma readPair_io0:
  "readPair io0 ''white3x3.png'' ''pair3x3.png'' = Inr (solid 3 3 white, spotted 3 3 [(0, 1), (1, 1)])"
  "readPair io0 ''white3x3.png'' ''dot3x3.png'' = Inr (solid 3 3 white, spotted 3 3 [(1, 1)])"
  "readPair io0 ''white3x3.png'' ''white3x3.png'' = Inr (solid 3 3 white, solid 3 3 white)"
  "readPair io0 ''white10x10.png'' ''white12x10.png'' = Inr (solid 10 10 white, solid 12 10 white)"
  "readPair io0 ''white6x5.png'' ''three6x5.png'' =
     Inr (solid 6 5 white, spotted 6 5 [(2, 3), (2, 4), (5, 3)])"
  "readPair io0 ''white400x400.png'' ''black400x400.png'' =
     Inr (solid 400 400 white, solid 400 400 black)"
  by (simp_all add: io0_def files_def)

lemma prepareOpts_examples:
  "prepareOpts strictAA = Inr (strictAA\<lparr>tolerance := Some (JNum JND)\<rparr>)"
  "prepareOpts strictOpts =
     Inr (strictOpts\<lparr>tolerance := Some (JNum JND), ignoreAntialiasing := JBool True\<rparr>)"
  "prepareOpts strictPlain = Inr (strictPlain\<lparr>tolerance := Some (JNum JND)\<rparr>)"
  by (simp_all add: prepareOpts_eq strictAA_def strictOpts_def strictPlain_def emptyOpts_def)

section \<open>The comparator chain\<close>









text \<open>
  C6. Once the options are accepted and the two images read: if the sizes differ,
  \<open>looksSame\<close> calls back with false and no comparator call is made; otherwise it calls back
  with true iff the comparator accepts every pixel, and the comparator has been called on
  the pixels in scan order up to and including the first one it rejects.
\<close>

theorem looksSame_short_circuits:
  "looksSame L io r i WithoutOpts = looksSame L io r i (WithOpts emptyOpts) \<and>
   (prepareOpts given = Inr opts' \<and> readPair io r i = Inr (first, second) \<longrightarrow>
      (width first \<noteq> width second \<or> height first \<noteq> height second \<longrightarrow>
         looksSame L io r i (WithOpts given) =
           \<lparr>events = [ReadPair r i], outcome = Completed False, optsAfter = opts'\<rparr>) \<and>
      (width first = width second \<and> height first = height second \<longrightarrow>
         outcome (looksSame L io r i (WithOpts given)) =
           Completed (\<forall>x < width first. \<forall>y < height first.
              accepts (compare L (createComparator first second opts')) first second (x, y)) \<and>
         events (looksSame L io r i (WithOpts given)) =
           ReadPair r i # map (\<lambda>c. Compare (fst c) (snd c))
             (take (Suc (length (takeWhile
                      (accepts (compare L (createComparator first second opts')) first second)
                      (rasterCoords (width first) (height first)))))
                (rasterCoords (width first) (height first)))))"
proof (intro conjI impI)
  show "looksSame L io r i WithoutOpts = looksSame L io r i (WithOpts emptyOpts)"
    by (simp add: looksSame_def)
next
  assume a: "prepareOpts given = Inr opts' \<and> readPair io r i = Inr (first, second)"
    and d: "width first \<noteq> width second \<or> height first \<noteq> height second"
  from a have prep: "prepareOpts given = Inr opts'" and rd: "readPair io r i = Inr (first, second)"
    by simp_all
  show "looksSame L io r i (WithOpts given) =
           \<lparr>events = [ReadPair r i], outcome = Completed False, optsAfter = opts'\<rparr>"
    using d by (simp add: looksSame_eq [OF prep rd])
next
  assume a: "prepareOpts given = Inr opts' \<and> readPair io r i = Inr (first, second)"
    and d: "width first = width second \<and> height first = height second"
  from a have prep: "prepareOpts given = Inr opts'" and rd: "readPair io r i = Inr (first, second)"
    by simp_all
  show "outcome (looksSame L io r i (WithOpts given)) =
           Completed (\<forall>x < width first. \<forall>y < height first.
              accepts (compare L (createComparator first second opts')) first second (x, y))"
    using d scan_stop_empty [of L first second "createComparator first second opts'"]
    by (simp add: looksSame_eq [OF prep rd])
  show "events (looksSame L io r i (WithOpts given)) =
           ReadPair r i # map (\<lambda>c. Compare (fst c) (snd c))
             (take (Suc (length (takeWhile
                      (accepts (compare L (createComparator first second opts')) first second)
                      (rasterCoords (width first) (height first)))))
                (rasterCoords (width first) (height first)))"
    using d by (simp add: looksSame_eq [OF prep rd] getDiffPixelsCoords_def scanPixels_stop)
qed

theorem looksSame_short_circuits_witness:
  "looksSame libs0 io0 ''white10x10.png'' ''white12x10.png'' (WithOpts strictOpts) =
     \<lparr>events = [ReadPair ''white10x10.png'' ''white12x10.png''], outcome = Completed False,
      optsAfter = strictOpts\<lparr>tolerance := Some (JNum JND), ignoreAntialiasing := JBool True\<rparr>\<rparr> \<and>
   outcome (looksSame libs0 io0 ''white3x3.png'' ''dot3x3.png'' (WithOpts strictOpts)) =
     Completed False \<and>
   events (looksSame libs0 io0 ''white3x3.png'' ''dot3x3.png'' (WithOpts strictOpts)) =
     [ReadPair ''white3x3.png'' ''dot3x3.png'', Compare 0 0, Compare 1 0, Compare 2 0,
      Compare 0 1, Compare 1 1] \<and>
   outcome (looksSame libs0 io0 ''white3x3.png'' ''white3x3.png'' (WithOpts strictOpts)) =
     Completed True"
proof -
  let ?after = "strictOpts\<lparr>tolerance := Some (JNum JND), ignoreAntialiasing := JBool True\<rparr>"
  note wide = looksSame_short_circuits [where given = strictOpts and opts' = ?after and io = io0
      and r = "''white10x10.png''" and i = "''white12x10.png''"
      and first = "solid 10 10 white" and second = "solid 12 10 white" and L = libs0,
      THEN conjunct2, THEN mp, OF conjI [OF prepareOpts_examples(2) readPair_io0(4)]]
  note dot = looksSame_short_circuits [where given = strictOpts and opts' = ?after and io = io0
      and r = "''white3x3.png''" and i = "''dot3x3.png''"
      and first = "solid 3 3 white" and second = "spotted 3 3 [(1, 1)]" and L = libs0,
      THEN conjunct2, THEN mp, OF conjI [OF prepareOpts_examples(2) readPair_io0(2)]]
  note same = looksSame_short_circuits [where given = strictOpts and opts' = ?after and io = io0
      and r = "''white3x3.png''" and i = "''white3x3.png''"
      and first = "solid 3 3 white" and second = "solid 3 3 white" and L = libs0,
      THEN conjunct2, THEN mp, OF conjI [OF prepareOpts_examples(2) readPair_io0(3)]]
  have cmp: "compare libs0 (createComparator p q ?after) d = areColorsSame d" for p q d
    by (simp add: createComparator_def strictOpts_def emptyOpts_def makeAntialiasingComparator_def
        libs0_def)
  have acc: "accepts (compare libs0 (createComparator (solid 3 3 white) (spotted 3 3 spots) ?after))
      (solid 3 3 white) (spotted 3 3 spots) c \<longleftrightarrow> c \<notin> set spots" for spots c
    by (simp add: accepts_def cmp areColorsSame_def)
  have acc2: "accepts (compare libs0 (createComparator (solid 3 3 white) (solid 3 3 white) ?after))
      (solid 3 3 white) (solid 3 3 white) c" for c
    by (simp add: accepts_def cmp areColorsSame_def)
  have coords: "rasterCoords 3 3 =
      [(0, 0), (1, 0), (2, 0), (0, 1), (1, 1), (2, 1), (0, 2), (1, 2), (2, 2)]"
    by code_simp
  have w: "looksSame libs0 io0 ''white10x10.png'' ''white12x10.png'' (WithOpts strictOpts) =
     \<lparr>events = [ReadPair ''white10x10.png'' ''white12x10.png''], outcome = Completed False,
      optsAfter = ?after\<rparr>"
    using wide by simp
  have dims: "width (solid 3 3 white) = width (spotted 3 3 [(1, 1)]) \<and>
      height (solid 3 3 white) = height (spotted 3 3 [(1, 1)])"
    by simp
  note scanned = dot [THEN conjunct2, THEN mp, OF dims]
  have hit: "\<not> (\<forall>x < width (solid 3 3 white). \<forall>y < height (solid 3 3 white).
      accepts (compare libs0 (createComparator (solid 3 3 white) (spotted 3 3 [(1, 1)]) ?after))
        (solid 3 3 white) (spotted 3 3 [(1, 1)]) (x, y))"
  proof
    assume "\<forall>x < width (solid 3 3 white). \<forall>y < height (solid 3 3 white).
      accepts (compare libs0 (createComparator (solid 3 3 white) (spotted 3 3 [(1, 1)]) ?after))
        (solid 3 3 white) (spotted 3 3 [(1, 1)]) (x, y)"
    then have "accepts (compare libs0 (createComparator (solid 3 3 white) (spotted 3 3 [(1, 1)])
        ?after)) (solid 3 3 white) (spotted 3 3 [(1, 1)]) (1, 1)"
      by simp
    then show False
      by (simp add: acc)
  qed
  have d1: "outcome (looksSame libs0 io0 ''white3x3.png'' ''dot3x3.png'' (WithOpts strictOpts)) =
     Completed False"
    using scanned [THEN conjunct1] hit by simp
  have d2: "events (looksSame libs0 io0 ''white3x3.png'' ''dot3x3.png'' (WithOpts strictOpts)) =
     [ReadPair ''white3x3.png'' ''dot3x3.png'', Compare 0 0, Compare 1 0, Compare 2 0,
      Compare 0 1, Compare 1 1]"
    using scanned [THEN conjunct2] by (simp add: acc [abs_def] coords)
  have s: "outcome (looksSame libs0 io0 ''white3x3.png'' ''white3x3.png'' (WithOpts strictOpts)) =
     Completed True"
    using same [THEN conjunct2] by (simp add: acc2)
  show ?thesis using w d1 d2 s by simp
qed

section \<open>The diff area\<close>

text \<open>
  C7, as the code has it. Once the options are accepted and the two images read: if the
  sizes differ, \<open>getDiffArea\<close> calls back with the rectangle at the origin of the larger
  width and the larger height and no comparator call is made; otherwise every pixel is
  compared and the callback gets \<open>null\<close> if none is rejected, else the bounding rectangle of
  the rejected coordinates, provided there are no more of them than the engine accepts as
  arguments of one call. With more, \<open>Math.min.apply\<close> throws a RangeError inside the scan
  callback and the callback of \<open>getDiffArea\<close> is never called. The rectangle covers every
  coordinate and each of its four sides holds one; for \<open>{(2,3), (2,4), (5,3)}\<close> it is
  \<open>{left: 2, top: 3, width: 4, height: 2}\<close>.
\<close>

theorem getDiffArea_rectangle_or_range_error:
  "(prepareOpts given = Inr opts' \<and> readPair io r i = Inr (first, second) \<longrightarrow>
      (width first \<noteq> width second \<or> height first \<noteq> height second \<longrightarrow>
         exports_getDiffArea L io r i (WithOpts given) =
           \<lparr>events = [ReadPair r i],
            outcome = Completed (Some (DiffArea 0 0 (int (max (width first) (width second)))
                                         (int (max (height first) (height second))))),
            optsAfter = opts'\<rparr>) \<and>
      (width first = width second \<and> height first = height second \<longrightarrow>
         outcome (exports_getDiffArea L io r i (WithOpts given)) =
           (if differingCoords L (createComparator first second opts') first second = {}
            then Completed None
            else if card (differingCoords L (createComparator first second opts') first second)
                      \<le> maxArguments L
            then Completed (Some (boundingBox
                   (differingCoords L (createComparator first second opts') first second)))
            else Uncaught stackError) \<and>
         events (exports_getDiffArea L io r i (WithOpts given)) =
           ReadPair r i # map (\<lambda>c. Compare (fst c) (snd c))
             (rasterCoords (width first) (height first)))) \<and>
   getDiffArea L cs =
     (if cs = [] then Inr InfiniteArea
      else if length cs \<le> maxArguments L then Inr (boundingBox (set cs))
      else Inl stackError) \<and>
   (3 \<le> maxArguments L \<longrightarrow> getDiffArea L [(2, 3), (2, 4), (5, 3)] = Inr (DiffArea 2 3 4 2)) \<and>
   (finite D \<and> (x, y) \<in> D \<longrightarrow>
      areaLeft (boundingBox D) \<le> x \<and> x < areaLeft (boundingBox D) + areaWidth (boundingBox D) \<and>
      areaTop (boundingBox D) \<le> y \<and> y < areaTop (boundingBox D) + areaHeight (boundingBox D)) \<and>
   (finite D \<and> D \<noteq> {} \<longrightarrow>
      areaLeft (boundingBox D) \<in> fst ` D \<and>
      areaLeft (boundingBox D) + areaWidth (boundingBox D) - 1 \<in> fst ` D \<and>
      areaTop (boundingBox D) \<in> snd ` D \<and>
      areaTop (boundingBox D) + areaHeight (boundingBox D) - 1 \<in> snd ` D)"
proof (intro conjI impI)
  assume a: "prepareOpts given = Inr opts' \<and> readPair io r i = Inr (first, second)"
    and d: "width first \<noteq> width second \<or> height first \<noteq> height second"
  from a have prep: "prepareOpts given = Inr opts'" and rd: "readPair io r i = Inr (first, second)"
    by simp_all
  show "exports_getDiffArea L io r i (WithOpts given) =
           \<lparr>events = [ReadPair r i],
            outcome = Completed (Some (DiffArea 0 0 (int (max (width first) (width second)))
                                         (int (max (height first) (height second))))),
            optsAfter = opts'\<rparr>"
    using d by (simp add: exports_getDiffArea_eq [OF prep rd])
next
  assume a: "prepareOpts given = Inr opts' \<and> readPair io r i = Inr (first, second)"
    and d: "width first = width second \<and> height first = height second"
  from a have prep: "prepareOpts given = Inr opts'" and rd: "readPair io r i = Inr (first, second)"
    by simp_all
  from d have w: "width first = width second" and h: "height first = height second"
    by simp_all
  show "outcome (exports_getDiffArea L io r i (WithOpts given)) =
           (if differingCoords L (createComparator first second opts') first second = {}
            then Completed None
            else if card (differingCoords L (createComparator first second opts') first second)
                      \<le> maxArguments L
            then Completed (Some (boundingBox
                   (differingCoords L (createComparator first second opts') first second)))
            else Uncaught stackError)"
    by (rule exports_getDiffArea_outcome [OF prep rd w h])
  show "events (exports_getDiffArea L io r i (WithOpts given)) =
           ReadPair r i # map (\<lambda>c. Compare (fst c) (snd c))
             (rasterCoords (width first) (height first))"
    using d by (simp add: exports_getDiffArea_eq [OF prep rd] scan_full_calls)
next
  show "getDiffArea L cs =
     (if cs = [] then Inr InfiniteArea
      else if length cs \<le> maxArguments L then Inr (boundingBox (set cs))
      else Inl stackError)"
    by (rule getDiffArea_eq)
next
  assume "3 \<le> maxArguments L"
  then show "getDiffArea L [(2, 3), (2, 4), (5, 3)] = Inr (DiffArea 2 3 4 2)"
    by (simp add: getDiffArea_eq boundingBox_def)
next
  assume "finite D \<and> (x, y) \<in> D"
  then show "areaLeft (boundingBox D) \<le> x" "x < areaLeft (boundingBox D) + areaWidth (boundingBox D)"
    "areaTop (boundingBox D) \<le> y" "y < areaTop (boundingBox D) + areaHeight (boundingBox D)"
    using boundingBox_covers [of D x y] by simp_all
next
  assume "finite D \<and> D \<noteq> {}"
  then show "areaLeft (boundingBox D) \<in> fst ` D"
    "areaLeft (boundingBox D) + areaWidth (boundingBox D) - 1 \<in> fst ` D"
    "areaTop (boundingBox D) \<in> snd ` D"
    "areaTop (boundingBox D) + areaHeight (boundingBox D) - 1 \<in> snd ` D"
    using boundingBox_touches [of D] by simp_all
qed

lemma exact_when_plain:
  "compare L (createComparator p q (strictPlain\<lparr>tolerance := Some (JNum JND)\<rparr>)) d =
     areColorsSame d"
  by (simp add: createComparator_def strictPlain_def emptyOpts_def)

lemma differingCoords_all:
  assumes "\<And>c. \<not> accepts (compare L cmp) png1 png2 c"
  shows "differingCoords L cmp png1 png2 =
     (\<lambda>c. (int (fst c), int (snd c))) `
       ({..<min (width png1) (width png2)} \<times> {..<min (height png1) (height png2)})"
  using assms by (auto simp add: differingCoords_def image_iff)

lemma card_differingCoords_all:
  assumes "\<And>c. \<not> accepts (compare L cmp) png1 png2 c"
  shows "card (differingCoords L cmp png1 png2) =
     min (width png1) (width png2) * min (height png1) (height png2)"
proof -
  have "inj_on (\<lambda>c :: nat \<times> nat. (int (fst c), int (snd c)))
      ({..<min (width png1) (width png2)} \<times> {..<min (height png1) (height png2)})"
    by (auto simp add: inj_on_def)
  then show ?thesis
    by (simp add: differingCoords_all [OF assms] card_image)
qed

theorem getDiffArea_rectangle_or_range_error_witness:
  "outcome (exports_getDiffArea libs0 io0 ''white400x400.png'' ''black400x400.png''
     (WithOpts strictPlain)) = Uncaught stackError \<and>
   exports_getDiffArea libs0 io0 ''white10x10.png'' ''white12x10.png'' (WithOpts strictPlain) =
     \<lparr>events = [ReadPair ''white10x10.png'' ''white12x10.png''],
      outcome = Completed (Some (DiffArea 0 0 12 10)),
      optsAfter = strictPlain\<lparr>tolerance := Some (JNum JND)\<rparr>\<rparr> \<and>
   outcome (exports_getDiffArea libs0 io0 ''white3x3.png'' ''white3x3.png'' (WithOpts strictPlain)) =
     Completed None \<and>
   outcome (exports_getDiffArea libs0 io0 ''white6x5.png'' ''three6x5.png'' (WithOpts strictPlain)) =
     Completed (Some (DiffArea 2 3 4 2)) \<and>
   getDiffArea libs0 [(2, 3), (2, 4), (5, 3)] = Inr (DiffArea 2 3 4 2) \<and>
   areaLeft (boundingBox {(2, 3), (2, 4), (5, 3)}) \<le> 5 \<and>
   areaLeft (boundingBox {(2, 3), (2, 4), (5, 3)}) \<in> fst ` {(2, 3), (2, 4), (5, 3)}"
proof -
  let ?after = "strictPlain\<lparr>tolerance := Some (JNum JND)\<rparr>"
  let ?D = "{(2, 3), (2, 4), (5, 3)} :: (int \<times> int) set"
  let ?three = "spotted 6 5 [(2, 3), (2, 4), (5, 3)]"
  note big = getDiffArea_rectangle_or_range_error
      [where given = strictPlain and opts' = ?after and io = io0
        and r = "''white400x400.png''" and i = "''black400x400.png''"
        and first = "solid 400 400 white" and second = "solid 400 400 black" and L = libs0,
        THEN conjunct1, THEN mp, OF conjI [OF prepareOpts_examples(3) readPair_io0(6)]]
  note wide = getDiffArea_rectangle_or_range_error
      [where given = strictPlain and opts' = ?after and io = io0
        and r = "''white10x10.png''" and i = "''white12x10.png''"
        and first = "solid 10 10 white" and second = "solid 12 10 white" and L = libs0,
        THEN conjunct1, THEN mp, OF conjI [OF prepareOpts_examples(3) readPair_io0(4)]]
  note same = getDiffArea_rectangle_or_range_error
      [where given = strictPlain and opts' = ?after and io = io0
        and r = "''white3x3.png''" and i = "''white3x3.png''"
        and first = "solid 3 3 white" and second = "solid 3 3 white" and L = libs0,
        THEN conjunct1, THEN mp, OF conjI [OF prepareOpts_examples(3) readPair_io0(3)]]
  note three = getDiffArea_rectangle_or_range_error
      [where given = strictPlain and opts' = ?after and io = io0
        and r = "''white6x5.png''" and i = "''three6x5.png''"
        and first = "solid 6 5 white" and second = ?three and L = libs0,
        THEN conjunct1, THEN mp, OF conjI [OF prepareOpts_examples(3) readPair_io0(5)]]
  note box = getDiffArea_rectangle_or_range_error
      [where L = libs0 and D = ?D and x = 5 and y = 3, THEN conjunct2, THEN conjunct2]
  have limit: "maxArguments libs0 = 125000"
    by (simp add: libs0_def)
  have all: "\<not> accepts (compare libs0 (createComparator (solid 400 400 white)
      (solid 400 400 black) ?after)) (solid 400 400 white) (solid 400 400 black) c" for c
    by (simp add: accepts_def exact_when_plain areColorsSame_def)
  have many: "card (differingCoords libs0 (createComparator (solid 400 400 white)
      (solid 400 400 black) ?after) (solid 400 400 white) (solid 400 400 black)) = 160000"
    by (simp add: card_differingCoords_all [OF all])
  have some: "differingCoords libs0 (createComparator (solid 400 400 white)
      (solid 400 400 black) ?after) (solid 400 400 white) (solid 400 400 black) \<noteq> {}"
    using many by auto
  have b: "outcome (exports_getDiffArea libs0 io0 ''white400x400.png'' ''black400x400.png''
      (WithOpts strictPlain)) = Uncaught stackError"
    using big [THEN conjunct2] some by (simp add: many limit)
  have w: "exports_getDiffArea libs0 io0 ''white10x10.png'' ''white12x10.png''
      (WithOpts strictPlain) =
     \<lparr>events = [ReadPair ''white10x10.png'' ''white12x10.png''],
      outcome = Completed (Some (DiffArea 0 0 12 10)), optsAfter = ?after\<rparr>"
    using wide by simp
  have none: "differingCoords libs0 (createComparator (solid 3 3 white) (solid 3 3 white) ?after)
      (solid 3 3 white) (solid 3 3 white) = {}"
    by (simp add: differingCoords_def accepts_def exact_when_plain areColorsSame_def)
  have s: "outcome (exports_getDiffArea libs0 io0 ''white3x3.png'' ''white3x3.png''
      (WithOpts strictPlain)) = Completed None"
    using same [THEN conjunct2] by (simp add: none)
  have acc: "(\<lambda>c. \<not> accepts (compare libs0 (createComparator (solid 6 5 white) ?three ?after))
      (solid 6 5 white) ?three c) = (\<lambda>c. c \<in> set [(2, 3), (2, 4), (5, 3)])"
    by (rule ext) (simp add: accepts_def exact_when_plain areColorsSame_def)
  have rejected: "filter (\<lambda>c. c \<in> set [(2, 3), (2, 4), (5, 3)]) (rasterCoords 6 5) =
      [(2, 3), (5, 3), (2, 4)]"
    by code_simp
  have scanned: "fst (getDiffPixelsCoords libs0 (solid 6 5 white) ?three
      (createComparator (solid 6 5 white) ?three ?after) False) =
      map (\<lambda>c. (int (fst c), int (snd c)))
        (filter (\<lambda>c. \<not> accepts (compare libs0 (createComparator (solid 6 5 white) ?three ?after))
           (solid 6 5 white) ?three c) (rasterCoords 6 5))"
    by (simp add: getDiffPixelsCoords_def scanPixels_full)
  have scan: "fst (getDiffPixelsCoords libs0 (solid 6 5 white) ?three
      (createComparator (solid 6 5 white) ?three ?after) False) = [(2, 3), (5, 3), (2, 4)]"
    unfolding scanned acc rejected by simp
  have found: "differingCoords libs0 (createComparator (solid 6 5 white) ?three ?after)
      (solid 6 5 white) ?three = ?D"
    using differingCoords_scan [of libs0 "solid 6 5 white" ?three
        "createComparator (solid 6 5 white) ?three ?after"]
    unfolding scan by auto
  have bb: "boundingBox ?D = DiffArea 2 3 4 2"
    by (simp add: boundingBox_def)
  have cardD: "card ?D = 3"
    by simp
  have t: "outcome (exports_getDiffArea libs0 io0 ''white6x5.png'' ''three6x5.png''
      (WithOpts strictPlain)) = Completed (Some (DiffArea 2 3 4 2))"
    using three [THEN conjunct2] by (simp add: found bb cardD limit)
  have b1: "getDiffArea libs0 [(2, 3), (2, 4), (5, 3)] = Inr (DiffArea 2 3 4 2)"
    using box [THEN conjunct1] by (simp add: limit)
  have b2: "areaLeft (boundingBox ?D) \<le> 5"
    using box [THEN conjunct2, THEN conjunct1] by simp
  have b3: "areaLeft (boundingBox ?D) \<in> fst ` ?D"
    using box [THEN conjunct2, THEN conjunct2] by simp
  show ?thesis using b w s t b1 b2 b3 by simp
qed

end
